theory Spec2Isabelle
  imports Complex_Main "HOL-Library.Multiset" "HOL-Library.AList"
begin

section \<open>Host values: strings\<close>

text \<open>
  A JavaScript string is a sequence of UTF-16 code units. A text that comes into the
  program is modelled as a \<^typ>\<open>string\<close>, one \<^typ>\<open>char\<close> per code unit: the texts of
  the model are those of code units below \<open>0x100\<close> (Latin-1). A text the program
  computes can leave that range, so the result of \<open>toUpperCase\<close>, and with it a normalised
  key, is a list of code units as natural numbers; \<open>units\<close> gives the code units of a text.
\<close>

definition units :: "string \<Rightarrow> nat list" where
  "units s = map of_char s"

text \<open>
  \<open>String.prototype.trim\<close> strips white space and line terminators from both ends. Below
  \<open>0x100\<close> these are TAB, LF, VT, FF, CR, SPACE and the no-break space \<open>U+00A0\<close>.
\<close>

definition isWhiteSpace :: "char \<Rightarrow> bool" where
  "isWhiteSpace c =
     (c \<in> set [CHR 0x09, CHR 0x0A, CHR 0x0B, CHR 0x0C, CHR 0x0D, CHR 0x20, CHR 0xA0])"

definition trim :: "string \<Rightarrow> string" where
  "trim s = rev (dropWhile isWhiteSpace (rev (dropWhile isWhiteSpace s)))"

text \<open>
  \<open>String.prototype.toUpperCase\<close> replaces each character by its full Unicode uppercase
  mapping. Below \<open>0x100\<close>: \<open>a..z\<close> and the lowercase letters \<open>U+00E0..U+00FE\<close> (the division
  sign \<open>U+00F7\<close> apart) move down by \<open>0x20\<close>, the sharp s \<open>U+00DF\<close> becomes \<open>SS\<close>, the micro
  sign \<open>U+00B5\<close> becomes \<open>U+039C\<close>, \<open>U+00FF\<close> becomes \<open>U+0178\<close>, and every other
  character stays.
\<close>

definition upperUnits :: "char \<Rightarrow> nat list" where
  "upperUnits c =
     (let n = (of_char c :: nat) in
      if 0x61 \<le> n \<and> n \<le> 0x7A then [n - 0x20]
      else if n = 0xB5 then [0x39C]
      else if n = 0xDF then [0x53, 0x53]
      else if 0xE0 \<le> n \<and> n \<le> 0xFE \<and> n \<noteq> 0xF7 then [n - 0x20]
      else if n = 0xFF then [0x178]
      else [n])"

definition toUpperCase :: "string \<Rightarrow> nat list" where
  "toUpperCase s = concat (map upperUnits s)"

section \<open>Result keys\<close>

text \<open>
  \<^verbatim>\<open>const RESULT_ID_REGEX = /^IDEO-[A-Z0-9]{4}-[A-Z0-9]{4}$/;\<close>

  The expression has no flags, so \<open>^\<close> and \<open>$\<close> match only at the two ends of the
  input and \<open>test\<close> is stateless: the whole input is the prefix \<open>IDEO-\<close>, four
  code units of the class \<open>A..Z\<close>, \<open>0..9\<close>, a hyphen, and four more code units of the class.
\<close>

definition isKeyUnit :: "nat \<Rightarrow> bool" where
  "isKeyUnit n = ((0x41 \<le> n \<and> n \<le> 0x5A) \<or> (0x30 \<le> n \<and> n \<le> 0x39))"

definition RESULT_ID_REGEX_test :: "nat list \<Rightarrow> bool" where
  "RESULT_ID_REGEX_test s =
     (length s = 14 \<and> take 5 s = units ''IDEO-''
      \<and> list_all isKeyUnit (take 4 (drop 5 s))
      \<and> take 1 (drop 9 s) = units ''-''
      \<and> list_all isKeyUnit (drop 10 s))"

text \<open>
  \<^verbatim>\<open>
  function normalizeResultId(value) {
    if (!value) return "";
    return value.trim().toUpperCase();
  }
  \<close>
  The argument is the text of an input field, a string; the only falsy string is the
  empty one.
\<close>

definition normalizeResultId :: "string \<Rightarrow> nat list" where
  "normalizeResultId v = (if v = [] then [] else toUpperCase (trim v))"

section \<open>Host values: numbers\<close>

text \<open>
  A JavaScript Number is an IEEE-754 double. \<open>NaN\<close> and the two infinities are
  constructors of their own; a finite Number is represented by the rational it denotes
  (every finite double is a dyadic rational), and the two zeros are identified: nothing
  this program does tells them apart. Comparison, \<open>Math.abs\<close>, \<open>Math.round\<close> and the
  remainder \<open>%\<close> are exact on doubles, so on \<^typ>\<open>rat\<close> they are the operations
  of the same name.
\<close>

datatype jsnum = NaN | PosInfinity | NegInfinity | Fin rat

text \<open>
  The values a score or an answer can have when it comes out of \<open>JSON.parse\<close>, arrays and
  objects apart.
\<close>

datatype jsval = JUndefined | JNull | JBool bool | JNum jsnum | JStr string

fun isFinite :: "jsnum \<Rightarrow> bool" where
  "isFinite (Fin x) = True"
| "isFinite n = False"

text \<open>
  \<open>Number(val)\<close> is the host's \<open>ToNumber\<close>. Its clause for strings, the parser
  \<open>StringToNumber\<close> of the language standard, is a parameter \<open>S\<close> of the model.
\<close>

fun Number :: "(string \<Rightarrow> jsnum) \<Rightarrow> jsval \<Rightarrow> jsnum" where
  "Number S JUndefined = NaN"
| "Number S JNull = Fin 0"
| "Number S (JBool b) = (if b then Fin 1 else Fin 0)"
| "Number S (JNum n) = n"
| "Number S (JStr s) = S s"

text \<open>
  \<^verbatim>\<open>
  function getAxisNumber(val) {
    const num = Number(val);
    return Number.isFinite(num) ? num : null;
  }
  \<close>
\<close>

definition getAxisNumber :: "(string \<Rightarrow> jsnum) \<Rightarrow> jsval \<Rightarrow> rat option" where
  "getAxisNumber S val =
     (let num = Number S val in case num of Fin x \<Rightarrow> Some x | _ \<Rightarrow> None)"

section \<open>Score interpretation\<close>

definition axisOrder :: "string list" where
  "axisOrder = [''economic'', ''social'', ''community'', ''method'', ''pragmatism'']"

text \<open>
  \<^verbatim>\<open>
  function interpretAxisScore(axis, raw) {
    const score = getAxisNumber(raw);
    if (score === null) return "Sem dados suficientes para este eixo.";
    const strong = Math.abs(score) >= 7;
    const moderate = Math.abs(score) >= 3;
    switch (axis) {
      case "economic":
        if (strong && score > 0) return "...";
        if (moderate && score > 0) return "...";
        if (strong && score < 0) return "...";
        if (moderate && score < 0) return "...";
        return "...";
      case "social": ...
      case "community": ...
      case "method": ...
      case "pragmatism": ...
      default:
        return "Eixo fora do conjunto principal.";
    }
  }
  \<close>
  The texts are Portuguese; a letter outside ASCII is written as its code unit.
\<close>

definition interpretAxisScore :: "(string \<Rightarrow> jsnum) \<Rightarrow> string \<Rightarrow> jsval \<Rightarrow> string" where
  "interpretAxisScore S axis raw =
     (case getAxisNumber S raw of
        None \<Rightarrow> ''Sem dados suficientes para este eixo.''
      | Some score \<Rightarrow>
          (let strong = (\<bar>score\<bar> \<ge> 7); moderate = (\<bar>score\<bar> \<ge> 3) in
           if axis = ''economic'' then
             (if strong \<and> score > 0 then
                ''Forte prefer'' @ [CHR 0xEA] @ ''ncia por mercado, concorr'' @ [CHR 0xEA] @
                ''ncia e menor interven'' @ [CHR 0xE7] @ [CHR 0xE3] @ ''o estatal.''
              else if moderate \<and> score > 0 then
                ''Inclina'' @ [CHR 0xE7] @ [CHR 0xE3] @ ''o a solu'' @ [CHR 0xE7] @
                [CHR 0xF5] @ ''es de mercado com regula'' @ [CHR 0xE7] @ [CHR 0xE3] @
                ''o moderada.''
              else if strong \<and> score < 0 then
                ''Defesa intensa da atua'' @ [CHR 0xE7] @ [CHR 0xE3] @
                ''o estatal, redistribui'' @ [CHR 0xE7] @ [CHR 0xE3] @ ''o e prote'' @
                [CHR 0xE7] @ [CHR 0xE3] @ ''o social.''
              else if moderate \<and> score < 0 then
                ''Tend'' @ [CHR 0xEA] @ ''ncia a pol'' @ [CHR 0xED] @
                ''ticas estatais e maior regula'' @ [CHR 0xE7] @ [CHR 0xE3] @ ''o econ'' @
                [CHR 0xF4] @ ''mica.''
              else
                ''Equil'' @ [CHR 0xED] @ ''brio entre atua'' @ [CHR 0xE7] @ [CHR 0xE3] @
                ''o do Estado e do mercado conforme o contexto.'')
           else if axis = ''social'' then
             (if strong \<and> score > 0 then
                ''Valoriza'' @ [CHR 0xE7] @ [CHR 0xE3] @
                ''o de normas tradicionais, autoridade e regula'' @ [CHR 0xE7] @ [CHR 0xE3] @
                ''o de costumes.''
              else if moderate \<and> score > 0 then
                ''Tend'' @ [CHR 0xEA] @ ''ncia a conservar costumes e limitar mudan'' @
                [CHR 0xE7] @ ''as bruscas em pautas sociais.''
              else if strong \<and> score < 0 then
                ''Defesa forte de liberdades civis, autonomia individual e pluralismo.''
              else if moderate \<and> score < 0 then
                ''Inclina'' @ [CHR 0xE7] @ [CHR 0xE3] @
                ''o liberal em costumes, com pouca interfer'' @ [CHR 0xEA] @
                ''ncia estatal.''
              else
                ''Postura moderada em temas de costumes e liberdades individuais.'')
           else if axis = ''community'' then
             (if strong \<and> score > 0 then
                ''Prioriza identidade coletiva, coes'' @ [CHR 0xE3] @ ''o social e la'' @
                [CHR 0xE7] @ ''os nacionais.''
              else if moderate \<and> score > 0 then
                ''Valoriza ra'' @ [CHR 0xED] @ ''zes locais e deveres com a comunidade.''
              else if strong \<and> score < 0 then
                ''Vis'' @ [CHR 0xE3] @ ''o cosmopolita, foco no indiv'' @ [CHR 0xED] @
                ''duo e na coopera'' @ [CHR 0xE7] @ [CHR 0xE3] @ ''o internacional.''
              else if moderate \<and> score < 0 then
                ''Inclina'' @ [CHR 0xE7] @ [CHR 0xE3] @
                ''o universalista, com identidades mais fluidas e abertas.''
              else
                ''Equilibra pertencimento comunit'' @ [CHR 0xE1] @
                ''rio com abertura cosmopolita.'')
           else if axis = ''method'' then
             (if strong \<and> score > 0 then
                ''Prefere mudan'' @ [CHR 0xE7] @
                ''as graduais, prudentes e institucionalizadas.''
              else if moderate \<and> score > 0 then
                ''Favorece reformas incrementais e pactuadas.''
              else if strong \<and> score < 0 then
                ''Aceita transforma'' @ [CHR 0xE7] @ [CHR 0xF5] @ ''es mais r'' @ [CHR 0xE1] @
                ''pidas, experimenta'' @ [CHR 0xE7] @ [CHR 0xE3] @
                ''o e reformismo intenso.''
              else if moderate \<and> score < 0 then
                ''Inclina'' @ [CHR 0xE7] @ [CHR 0xE3] @ ''o a interven'' @ [CHR 0xE7] @
                [CHR 0xF5] @ ''es planejadas e inova'' @ [CHR 0xE7] @ [CHR 0xE3] @
                ''o mais acelerada.''
              else
                ''Ajusta entre gradualismo e mudan'' @ [CHR 0xE7] @ ''a r'' @ [CHR 0xE1] @
                ''pida conforme o tema.'')
           else if axis = ''pragmatism'' then
             (if strong \<and> score > 0 then
                ''Orienta'' @ [CHR 0xE7] @ [CHR 0xE3] @ ''o fortemente pragm'' @ [CHR 0xE1] @
                ''tica: prioriza resultados pr'' @ [CHR 0xE1] @ ''ticos e negoci'' @
                [CHR 0xE1] @ ''veis.''
              else if moderate \<and> score > 0 then
                ''Mais pragm'' @ [CHR 0xE1] @
                ''tico que idealista, aberto a acordos para avan'' @ [CHR 0xE7] @ ''ar.''
              else if strong \<and> score < 0 then
                ''Vis'' @ [CHR 0xE3] @ ''o idealista ou ut'' @ [CHR 0xF3] @
                ''pica, priorizando princ'' @ [CHR 0xED] @ ''pios sobre a negocia'' @
                [CHR 0xE7] @ [CHR 0xE3] @ ''o.''
              else if moderate \<and> score < 0 then
                ''Inclina'' @ [CHR 0xE7] @ [CHR 0xE3] @
                ''o idealista, com menos foco em compromissos imediatos.''
              else
                ''Equilibra pragmatismo e idealismo dependendo do contexto.'')
           else ''Eixo fora do conjunto principal.''))"

text \<open>
  The bands in the words of the specification: strong from magnitude 7, moderate from
  magnitude 3, the sign choosing the pole.
\<close>

datatype band = StrongPositive | ModeratePositive | Neutral | ModerateNegative | StrongNegative

definition band_of :: "rat \<Rightarrow> band" where
  "band_of score =
     (if 7 \<le> score then StrongPositive
      else if score \<le> - 7 then StrongNegative
      else if 3 \<le> score then ModeratePositive
      else if score \<le> - 3 then ModerateNegative
      else Neutral)"

text \<open>The hand-written text of each band of each known axis.\<close>

definition economicTexts :: "band \<Rightarrow> string" where
  "economicTexts b = (case b of
      StrongPositive \<Rightarrow>
        ''Forte prefer'' @ [CHR 0xEA] @ ''ncia por mercado, concorr'' @ [CHR 0xEA] @
        ''ncia e menor interven'' @ [CHR 0xE7] @ [CHR 0xE3] @ ''o estatal.''
      | ModeratePositive \<Rightarrow>
        ''Inclina'' @ [CHR 0xE7] @ [CHR 0xE3] @ ''o a solu'' @ [CHR 0xE7] @ [CHR 0xF5] @
        ''es de mercado com regula'' @ [CHR 0xE7] @ [CHR 0xE3] @ ''o moderada.''
      | StrongNegative \<Rightarrow>
        ''Defesa intensa da atua'' @ [CHR 0xE7] @ [CHR 0xE3] @ ''o estatal, redistribui'' @
        [CHR 0xE7] @ [CHR 0xE3] @ ''o e prote'' @ [CHR 0xE7] @ [CHR 0xE3] @ ''o social.''
      | ModerateNegative \<Rightarrow>
        ''Tend'' @ [CHR 0xEA] @ ''ncia a pol'' @ [CHR 0xED] @
        ''ticas estatais e maior regula'' @ [CHR 0xE7] @ [CHR 0xE3] @ ''o econ'' @
        [CHR 0xF4] @ ''mica.''
      | Neutral \<Rightarrow>
        ''Equil'' @ [CHR 0xED] @ ''brio entre atua'' @ [CHR 0xE7] @ [CHR 0xE3] @
        ''o do Estado e do mercado conforme o contexto.'')"

definition socialTexts :: "band \<Rightarrow> string" where
  "socialTexts b = (case b of
      StrongPositive \<Rightarrow>
        ''Valoriza'' @ [CHR 0xE7] @ [CHR 0xE3] @
        ''o de normas tradicionais, autoridade e regula'' @ [CHR 0xE7] @ [CHR 0xE3] @
        ''o de costumes.''
      | ModeratePositive \<Rightarrow>
        ''Tend'' @ [CHR 0xEA] @ ''ncia a conservar costumes e limitar mudan'' @ [CHR 0xE7] @
        ''as bruscas em pautas sociais.''
      | StrongNegative \<Rightarrow>
        ''Defesa forte de liberdades civis, autonomia individual e pluralismo.''
      | ModerateNegative \<Rightarrow>
        ''Inclina'' @ [CHR 0xE7] @ [CHR 0xE3] @
        ''o liberal em costumes, com pouca interfer'' @ [CHR 0xEA] @ ''ncia estatal.''
      | Neutral \<Rightarrow>
        ''Postura moderada em temas de costumes e liberdades individuais.'')"

definition communityTexts :: "band \<Rightarrow> string" where
  "communityTexts b = (case b of
      StrongPositive \<Rightarrow>
        ''Prioriza identidade coletiva, coes'' @ [CHR 0xE3] @ ''o social e la'' @ [CHR 0xE7] @
        ''os nacionais.''
      | ModeratePositive \<Rightarrow>
        ''Valoriza ra'' @ [CHR 0xED] @ ''zes locais e deveres com a comunidade.''
      | StrongNegative \<Rightarrow>
        ''Vis'' @ [CHR 0xE3] @ ''o cosmopolita, foco no indiv'' @ [CHR 0xED] @
        ''duo e na coopera'' @ [CHR 0xE7] @ [CHR 0xE3] @ ''o internacional.''
      | ModerateNegative \<Rightarrow>
        ''Inclina'' @ [CHR 0xE7] @ [CHR 0xE3] @
        ''o universalista, com identidades mais fluidas e abertas.''
      | Neutral \<Rightarrow>
        ''Equilibra pertencimento comunit'' @ [CHR 0xE1] @ ''rio com abertura cosmopolita.'')"

definition methodTexts :: "band \<Rightarrow> string" where
  "methodTexts b = (case b of
      StrongPositive \<Rightarrow>
        ''Prefere mudan'' @ [CHR 0xE7] @ ''as graduais, prudentes e institucionalizadas.''
      | ModeratePositive \<Rightarrow>
        ''Favorece reformas incrementais e pactuadas.''
      | StrongNegative \<Rightarrow>
        ''Aceita transforma'' @ [CHR 0xE7] @ [CHR 0xF5] @ ''es mais r'' @ [CHR 0xE1] @
        ''pidas, experimenta'' @ [CHR 0xE7] @ [CHR 0xE3] @ ''o e reformismo intenso.''
      | ModerateNegative \<Rightarrow>
        ''Inclina'' @ [CHR 0xE7] @ [CHR 0xE3] @ ''o a interven'' @ [CHR 0xE7] @ [CHR 0xF5] @
        ''es planejadas e inova'' @ [CHR 0xE7] @ [CHR 0xE3] @ ''o mais acelerada.''
      | Neutral \<Rightarrow>
        ''Ajusta entre gradualismo e mudan'' @ [CHR 0xE7] @ ''a r'' @ [CHR 0xE1] @
        ''pida conforme o tema.'')"

definition pragmatismTexts :: "band \<Rightarrow> string" where
  "pragmatismTexts b = (case b of
      StrongPositive \<Rightarrow>
        ''Orienta'' @ [CHR 0xE7] @ [CHR 0xE3] @ ''o fortemente pragm'' @ [CHR 0xE1] @
        ''tica: prioriza resultados pr'' @ [CHR 0xE1] @ ''ticos e negoci'' @ [CHR 0xE1] @
        ''veis.''
      | ModeratePositive \<Rightarrow>
        ''Mais pragm'' @ [CHR 0xE1] @ ''tico que idealista, aberto a acordos para avan'' @
        [CHR 0xE7] @ ''ar.''
      | StrongNegative \<Rightarrow>
        ''Vis'' @ [CHR 0xE3] @ ''o idealista ou ut'' @ [CHR 0xF3] @
        ''pica, priorizando princ'' @ [CHR 0xED] @ ''pios sobre a negocia'' @ [CHR 0xE7] @
        [CHR 0xE3] @ ''o.''
      | ModerateNegative \<Rightarrow>
        ''Inclina'' @ [CHR 0xE7] @ [CHR 0xE3] @
        ''o idealista, com menos foco em compromissos imediatos.''
      | Neutral \<Rightarrow>
        ''Equilibra pragmatismo e idealismo dependendo do contexto.'')"

definition bandText :: "string \<Rightarrow> band \<Rightarrow> string" where
  "bandText axis b =
     (if axis = ''economic'' then economicTexts b
      else if axis = ''social'' then socialTexts b
      else if axis = ''community'' then communityTexts b
      else if axis = ''method'' then methodTexts b
      else pragmatismTexts b)"

definition insufficientData :: string where
  "insufficientData = ''Sem dados suficientes para este eixo.''"

definition outsideCoreSet :: string where
  "outsideCoreSet = ''Eixo fora do conjunto principal.''"

text \<open>
  An instance of the string parser for closed examples: it reads an unsigned decimal
  integer literal, as \<open>StringToNumber\<close> does (exactly, below \<open>2^53\<close>), and gives \<open>NaN\<close>
  on any other text.
\<close>

definition digitValue :: "char \<Rightarrow> nat option" where
  "digitValue c = map_of (zip ''0123456789'' [0, 1, 2, 3, 4, 5, 6, 7, 8, 9]) c"

fun digitsValue :: "nat \<Rightarrow> string \<Rightarrow> nat option" where
  "digitsValue acc [] = Some acc"
| "digitsValue acc (c # cs) =
     (case digitValue c of None \<Rightarrow> None | Some d \<Rightarrow> digitsValue (10 * acc + d) cs)"

definition readDecimalInteger :: "string \<Rightarrow> jsnum" where
  "readDecimalInteger s =
     (if s = [] then NaN
      else case digitsValue 0 s of None \<Rightarrow> NaN | Some n \<Rightarrow> Fin (of_nat n))"


section \<open>Score formatting\<close>

text \<open>
  \<open>x % 1\<close> keeps the sign of \<open>x\<close>: it is \<open>x\<close> minus \<open>x\<close> truncated towards zero.
  \<open>Math.round\<close> rounds to the nearest integer, a tie going up. The literal \<open>0.001\<close> is
  the double nearest to one thousandth.
\<close>

definition remainder1 :: "rat \<Rightarrow> rat" where
  "remainder1 x = x - of_int (if x < 0 then \<lceil>x\<rceil> else \<lfloor>x\<rfloor>)"

definition Math_round :: "rat \<Rightarrow> int" where
  "Math_round x = \<lfloor>x + 1 / 2\<rfloor>"

definition literal_0_001 :: rat where
  "literal_0_001 = 1152921504606847 / 1152921504606846976"

text \<open>
  \<open>Number(val.toFixed(1))\<close>. \<open>toFixed(1)\<close> takes the integer \<open>n\<close> for which \<open>n / 10\<close> is
  nearest to the magnitude of \<open>val\<close> (the larger \<open>n\<close> on a tie), writes it with one
  fraction digit and puts the sign of \<open>val\<close> in front; \<open>Number\<close> reads that literal back.
  The model keeps the value \<open>n / 10\<close> of the literal, with its sign.
\<close>

definition Number_toFixed1 :: "rat \<Rightarrow> rat" where
  "Number_toFixed1 x =
     (let n = \<lfloor>\<bar>x\<bar> * 10 + 1 / 2\<rfloor> in if x < 0 then - (of_int n / 10) else of_int n / 10)"

text \<open>
  \<open>String(rounded)\<close> and the template literal. The decimal digits of a natural number,
  and the text of a Number that is an integer or a multiple of one tenth: a minus sign for
  a negative value, the digits of the integer part, and the fraction digit after a point
  when there is one. This is the text the host prints for such a value while it has at
  most 15 significant digits, so the model of \<open>formatAxisValue\<close> is exact for scores of
  magnitude below \<open>10^14\<close>.
\<close>

definition digitChar :: "nat \<Rightarrow> char" where
  "digitChar d = ''0123456789'' ! d"

function decimal :: "nat \<Rightarrow> string" where
  "decimal n = (if n < 10 then [digitChar n] else decimal (n div 10) @ [digitChar (n mod 10)])"
  by pat_completeness auto
termination
  by (relation "measure id") auto

declare decimal.simps [simp del]

definition Number_toString :: "rat \<Rightarrow> string" where
  "Number_toString r =
     (let m = \<bar>r\<bar>; i = \<lfloor>m\<rfloor>; f = m - of_int i in
      (if r < 0 then ''-'' else '''') @ decimal (nat i)
      @ (if f = 0 then '''' else ''.'' @ decimal (nat \<lfloor>f * 10\<rfloor>)))"

text \<open>
  \<^verbatim>\<open>
  function formatAxisValue(val) {
    if (!Number.isFinite(val)) return "--";
    const rounded = Math.abs(val % 1) < 0.001 ? Math.round(val) : Number(val.toFixed(1));
    return rounded > 0 ? `+${rounded}` : String(rounded);
  }
  \<close>
  \<open>Number.isFinite\<close> does not coerce: a value that is not a Number is not finite.
\<close>

definition formatAxisValue :: "jsval \<Rightarrow> string" where
  "formatAxisValue val =
     (case val of
        JNum (Fin x) \<Rightarrow>
          (let rounded = (if \<bar>remainder1 x\<bar> < literal_0_001 then of_int (Math_round x)
                          else Number_toFixed1 x)
           in if rounded > 0 then ''+'' @ Number_toString rounded else Number_toString rounded)
      | _ \<Rightarrow> ''--'')"

text \<open>
  For the statement of the formatting result: the score in tenths, rounded half away from
  zero, and the text of a number of tenths with its sign.
\<close>

definition nearestTenth :: "rat \<Rightarrow> int" where
  "nearestTenth x = (if x < 0 then - \<lfloor>- x * 10 + 1 / 2\<rfloor> else \<lfloor>x * 10 + 1 / 2\<rfloor>)"

definition signText :: "int \<Rightarrow> string" where
  "signText n = (if 0 < n then ''+'' else if n < 0 then ''-'' else '''')"

definition tenthsText :: "int \<Rightarrow> string" where
  "tenthsText n =
     signText n @ decimal (nat (\<bar>n\<bar> div 10))
     @ (if \<bar>n\<bar> mod 10 = 0 then '''' else ''.'' @ decimal (nat (\<bar>n\<bar> mod 10)))"

definition integerText :: "int \<Rightarrow> string" where
  "integerText k = signText k @ decimal (nat \<bar>k\<bar>)"

section \<open>Host values: plain objects\<close>

text \<open>
  \<open>byAxis\<close> is a plain object used as a dictionary from axis names to arrays. It is
  modelled by the list of its own properties in the order of their creation:
  assigning to a new key appends it, assigning to an existing key keeps its place
  (\<open>AList.update\<close>), \<open>delete\<close> removes it (\<open>AList.delete\<close>).

  Two things make a plain object differ from an insertion-ordered dictionary, and both are
  part of the model. Reading a key that is not an own property finds the properties
  inherited from \<open>Object.prototype\<close>; their values are functions (for \<open>__proto__\<close>, the
  prototype object itself), all truthy and none with a \<open>push\<close> method. And \<open>Object.keys\<close>
  lists the own keys that are array indices (canonical decimal numerals below
  \<open>2^32 - 1\<close>) first, in ascending numeric order, and only then the other keys in the
  order of their creation.
\<close>

type_synonym 'v jsobject = "(string \<times> 'v) list"

definition ObjectPrototypeKeys :: "string list" where
  "ObjectPrototypeKeys =
     [''constructor'', ''hasOwnProperty'', ''isPrototypeOf'', ''propertyIsEnumerable'',
      ''toLocaleString'', ''toString'', ''valueOf'', ''__proto__'', ''__defineGetter__'',
      ''__defineSetter__'', ''__lookupGetter__'', ''__lookupSetter__'']"

definition isArrayIndex :: "string \<Rightarrow> bool" where
  "isArrayIndex k =
     (case digitsValue 0 k of
        None \<Rightarrow> False
      | Some n \<Rightarrow> k \<noteq> [] \<and> (k = ''0'' \<or> hd k \<noteq> CHR ''0'') \<and> n < 4294967295)"

definition arrayIndexValue :: "string \<Rightarrow> nat" where
  "arrayIndexValue k = (case digitsValue 0 k of None \<Rightarrow> 0 | Some n \<Rightarrow> n)"

definition Object_keys :: "'v jsobject \<Rightarrow> string list" where
  "Object_keys obj =
     (let ks = map fst obj in
      sort_key arrayIndexValue (filter isArrayIndex ks) @ filter (\<lambda>k. \<not> isArrayIndex k) ks)"

section \<open>Questions and pages\<close>

text \<open>
  A question as \<open>/api/questions\<close> delivers it. The axis is optional: \<open>None\<close> stands for a
  record without an \<open>axis\<close> field (or with \<open>null\<close> there). An axis, when present, is a
  string.
\<close>

record question =
  q_id :: string
  q_axis :: "string option"
  q_text :: string

record page =
  p_axis :: string
  p_questions :: "question list"

datatype js_error = TypeError

text \<open>\<^verbatim>\<open>const axis = q.axis || "other";\<close> The empty string is falsy as well.\<close>

definition axisKey :: "question \<Rightarrow> string" where
  "axisKey q = (case q_axis q of None \<Rightarrow> ''other'' | Some a \<Rightarrow> if a = [] then ''other'' else a)"

text \<open>
  \<^verbatim>\<open>
  const byAxis = {};
  for (const q of questions) {
    const axis = q.axis || "other";
    if (!byAxis[axis]) byAxis[axis] = [];
    byAxis[axis].push(q);
  }
  \<close>
  An own property of \<open>byAxis\<close> is an array, which is truthy. When the key is not an own
  property but is inherited, the test finds the inherited value, nothing is assigned, and
  the call of its missing \<open>push\<close> throws a \<open>TypeError\<close>.
\<close>

fun groupByAxis :: "question list \<Rightarrow> question list jsobject \<Rightarrow> js_error + question list jsobject"
  where
  "groupByAxis [] byAxis = Inr byAxis"
| "groupByAxis (q # qs) byAxis =
     (let axis = axisKey q in
      case map_of byAxis axis of
        Some arr \<Rightarrow> groupByAxis qs (AList.update axis (arr @ [q]) byAxis)
      | None \<Rightarrow>
          if axis \<in> set ObjectPrototypeKeys then Inl TypeError
          else groupByAxis qs (AList.update axis ([] @ [q]) byAxis))"

text \<open>
  \<^verbatim>\<open>
  pages = [];
  for (const axis of axisOrder) {
    if (byAxis[axis]) {
      pages.push({ axis, questions: byAxis[axis] });
      delete byAxis[axis];
    }
  }
  \<close>
  None of the five names of \<open>axisOrder\<close> is inherited, so the test reads own properties
  only. The function returns the pages pushed and what is left of \<open>byAxis\<close>.
\<close>

fun knownAxisPages ::
  "string list \<Rightarrow> page list \<Rightarrow> question list jsobject \<Rightarrow> page list \<times> question list jsobject"
  where
  "knownAxisPages [] pgs byAxis = (pgs, byAxis)"
| "knownAxisPages (axis # axes) pgs byAxis =
     (case map_of byAxis axis of
        Some arr \<Rightarrow>
          knownAxisPages axes (pgs @ [\<lparr>p_axis = axis, p_questions = arr\<rparr>])
            (AList.delete axis byAxis)
      | None \<Rightarrow> knownAxisPages axes pgs byAxis)"

text \<open>
  \<^verbatim>\<open>
  for (const axis of Object.keys(byAxis)) {
    pages.push({ axis, questions: byAxis[axis] });
  }
  \<close>
  Every key listed is an own property; the \<open>None\<close> branch is never taken.
\<close>

definition remainingAxisPages :: "question list jsobject \<Rightarrow> page list" where
  "remainingAxisPages byAxis =
     map (\<lambda>axis. \<lparr>p_axis = axis,
                   p_questions = (case map_of byAxis axis of Some arr \<Rightarrow> arr | None \<Rightarrow> [])\<rparr>)
       (Object_keys byAxis)"

section \<open>The quiz session\<close>

text \<open>
  The module-level variables of \<open>app.js\<close>, and what the page shows as far as the
  handlers below write it: the three message areas (a text with its error flag, \<open>None\<close>
  when hidden), the key shown in the result-key block, and whether the result section is
  visible. \<open>requests\<close> records the calls of \<open>fetch\<close> in the order they are made.
\<close>

type_synonym answer_map = "string \<rightharpoonup> int"

type_synonym profile = "(string \<times> string) list"

type_synonym axis_scores = "(string \<times> jsval) list"

record latest =
  l_axes :: axis_scores
  l_profile :: profile
  l_answers :: answer_map

datatype request =
    PostSubmit answer_map
  | PostSaveResult answer_map axis_scores string string
  | GetResult "nat list"

record state =
  questions :: "question list"
  pages :: "page list"
  currentPageIndex :: nat
  answers :: answer_map
  latestResult :: "latest option"
  latestResultId :: "string option"
  quizMessage :: "string option"
  resultKeyMessage :: "(string \<times> bool) option"
  retrieveMessage :: "(string \<times> bool) option"
  resultKeyShown :: "string option"
  resultVisible :: bool
  requests :: "request list"

text \<open>
  \<open>buildPagesByAxis\<close> as a whole. \<open>pages\<close> and \<open>currentPageIndex\<close> are assigned after the
  grouping loop, so an exception there leaves the state as it was.
\<close>

definition buildPagesByAxis :: "state \<Rightarrow> js_error + state" where
  "buildPagesByAxis s =
     (case groupByAxis (questions s) [] of
        Inl e \<Rightarrow> Inl e
      | Inr byAxis \<Rightarrow>
          (case knownAxisPages axisOrder [] byAxis of
             (pgs, rest) \<Rightarrow>
               Inr (s\<lparr>pages := pgs @ remainingAxisPages rest, currentPageIndex := 0\<rparr>)))"

section \<open>Submitting, saving and retrieving results\<close>

text \<open>The texts the handlers put into the message areas.\<close>

definition msgKeyGenerated :: string where
  "msgKeyGenerated =
     ''Chave gerada com sucesso. Guarde para recuperar o resultado depois.''"

definition msgKeyNotGenerated :: string where
  "msgKeyNotGenerated =
     ''N'' @ [CHR 0xE3] @ ''o foi poss'' @ [CHR 0xED] @
     ''vel gerar a chave agora. Seu resultado continua vis'' @ [CHR 0xED] @
     ''vel nesta sess'' @ [CHR 0xE3] @ ''o.''"

definition msgKeepKey :: string where
  "msgKeepKey =
     ''Guarde esta chave para consultar seu resultado depois.''"

definition msgSubmitFailed :: string where
  "msgSubmitFailed =
     ''Ocorreu um erro ao calcular o resultado. Tente novamente em instantes.''"

definition msgEnterKey :: string where
  "msgEnterKey =
     ''Digite uma chave IDEO para recuperar o resultado.''"

definition msgInvalidFormat :: string where
  "msgInvalidFormat =
     ''Formato inv'' @ [CHR 0xE1] @ ''lido. Use IDEO-XXXX-YYYY (letras e n'' @ [CHR 0xFA] @
     ''meros).''"

definition msgSearching :: string where
  "msgSearching =
     ''Buscando resultado...''"

definition msgLoaded :: string where
  "msgLoaded =
     ''Resultado carregado com sucesso.''"

definition msgNotFound :: string where
  "msgNotFound =
     ''Chave n'' @ [CHR 0xE3] @ ''o encontrada. Confira e tente novamente.''"

definition msgRecovered :: string where
  "msgRecovered =
     ''Resultado recuperado pela sua chave IDEO.''"

definition msgNotRecovered :: string where
  "msgNotRecovered =
     ''N'' @ [CHR 0xE3] @ ''o foi poss'' @ [CHR 0xED] @
     ''vel recuperar o resultado com essa chave.''"

text \<open>
  The outcome of one call of \<open>fetch\<close> followed by \<open>res.json()\<close>, as the caller sees it:
  \<open>Failed\<close> when the request is rejected, when the status is not ok, or when the body is
  not JSON; the parsed body otherwise. The server is not part of this repository: each
  handler takes the outcome of the calls it makes as an argument.
\<close>

datatype 'a response = Failed | Delivered 'a

text \<open>
  A result object as \<open>/api/submit\<close> and \<open>/api/result/{id}\<close> deliver it, with the fields the
  handlers read. A field is \<open>None\<close> when it is absent (or \<open>null\<close>); the two keys are
  strings, of which the empty one is falsy too.
\<close>

record result_data =
  d_axes :: "axis_scores option"
  d_profile :: "profile option"
  d_result_id :: "string option"
  d_id :: "string option"
  d_answers :: "answer_map option"

text \<open>\<open>x || y\<close> on optional strings, and \<open>x || {}\<close> on optional objects.\<close>

definition orElse :: "string option \<Rightarrow> string option \<Rightarrow> string option" where
  "orElse x y = (case x of None \<Rightarrow> y | Some v \<Rightarrow> if v = [] then y else Some v)"

definition orEmpty :: "('k \<times> 'v) list option \<Rightarrow> ('k \<times> 'v) list" where
  "orEmpty x = (case x of None \<Rightarrow> [] | Some v \<Rightarrow> v)"

definition orNoAnswers :: "answer_map option \<Rightarrow> answer_map" where
  "orNoAnswers x = (case x of None \<Rightarrow> Map.empty | Some v \<Rightarrow> v)"

text \<open>
  \<^verbatim>\<open>
  function handleResult(data) {
    const axes = data.axes || {};
    const profile = data.profile || {};
    const resultId = data.result_id || data.id || null;
    latestResult = { axes, profile, answers: data.answers || answers };
    latestResultId = resultId;
    updateResultKeyDisplay(resultId);
    if (resultId) {
      setInlineMessage("result-key-message", "Guarde esta chave ...");
    }
    hideDetailsPage();
    if (data.answers) {
      answers = data.answers;
    }
    ... show the result section, fill in the profile texts, draw the chart ...
  }
  \<close>
\<close>

definition handleResult :: "result_data \<Rightarrow> state \<Rightarrow> state" where
  "handleResult data s =
     (let axes = orEmpty (d_axes data);
          profile = orEmpty (d_profile data);
          resultId = orElse (orElse (d_result_id data) (d_id data)) None;
          s1 = s\<lparr>latestResult :=
                   Some \<lparr>l_axes = axes, l_profile = profile,
                         l_answers = (case d_answers data of Some a \<Rightarrow> a | None \<Rightarrow> answers s)\<rparr>,
                 latestResultId := resultId,
                 resultKeyShown := resultId\<rparr>;
          s2 = (if resultId \<noteq> None then s1\<lparr>resultKeyMessage := Some (msgKeepKey, False)\<rparr>
                else s1);
          s3 = (case d_answers data of Some a \<Rightarrow> s2\<lparr>answers := a\<rparr> | None \<Rightarrow> s2)
      in s3\<lparr>resultVisible := True\<rparr>)"

text \<open>
  \<^verbatim>\<open>
  async function submitAnswers() {
    quizMsg.classList.add("hidden");
    try {
      const res = await fetch("/api/submit", { method: "POST", body: {answers} });
      if (!res.ok) throw new Error(...);
      const data = await res.json();
      let resultId = null;
      try {
        resultId = await saveResultToServer({ answers, axes: data.axes, profile: data.profile });
        setInlineMessage("result-key-message", "Chave gerada com sucesso. ...");
      } catch (err) {
        setInlineMessage("result-key-message", "Nao foi possivel gerar a chave agora. ...",
          { error: true });
      }
      handleResult({ ...data, result_id: resultId, answers });
    } catch (err) {
      quizMsg.textContent = "Ocorreu um erro ao calcular o resultado. ...";
      quizMsg.classList.remove("hidden");
    }
  }
  \<close>
  \<open>saveResultToServer\<close> posts the answers, the scores (\<open>axes || {}\<close>) and the key and label
  of the profile (\<open>""\<close> when missing), with the locale and the device class, which the
  model leaves out; it returns the \<open>result_id\<close> of the reply, which may be missing, and
  throws when the call fails.
\<close>

definition profileField :: "string \<Rightarrow> profile option \<Rightarrow> string" where
  "profileField k p = (case map_of (orEmpty p) k of None \<Rightarrow> [] | Some v \<Rightarrow> v)"

definition submitAnswers ::
  "result_data response \<Rightarrow> string option response \<Rightarrow> state \<Rightarrow> state" where
  "submitAnswers scoring saving s =
     (let s1 = s\<lparr>quizMessage := None, requests := requests s @ [PostSubmit (answers s)]\<rparr> in
      case scoring of
        Failed \<Rightarrow> s1\<lparr>quizMessage := Some msgSubmitFailed\<rparr>
      | Delivered data \<Rightarrow>
          (let s2 = s1\<lparr>requests := requests s1 @
                       [PostSaveResult (answers s1) (orEmpty (d_axes data))
                          (profileField ''key'' (d_profile data))
                          (profileField ''label'' (d_profile data))]\<rparr>;
               resultId = (case saving of Delivered rid \<Rightarrow> rid | Failed \<Rightarrow> None);
               s3 = (case saving of
                       Delivered rid \<Rightarrow> s2\<lparr>resultKeyMessage := Some (msgKeyGenerated, False)\<rparr>
                     | Failed \<Rightarrow> s2\<lparr>resultKeyMessage := Some (msgKeyNotGenerated, True)\<rparr>)
           in handleResult (data\<lparr>d_result_id := resultId, d_answers := Some (answers s3)\<rparr>) s3))"

text \<open>
  \<^verbatim>\<open>
  async function handleRetrieveSubmit() {
    const rawValue = normalizeResultId(input.value);
    if (!rawValue) {
      setInlineMessage("retrieve-message", "Digite uma chave IDEO ...", { error: true });
      return;
    }
    if (!RESULT_ID_REGEX.test(rawValue)) {
      setInlineMessage("retrieve-message", "Formato invalido. ...", { error: true });
      return;
    }
    setInlineMessage("retrieve-message", "Buscando resultado...");
    try {
      const data = await loadResultById(rawValue);
      answers = data.answers || {};
      handleResult(data);
      setInlineMessage("retrieve-message", "Resultado carregado com sucesso.");
    } catch (err) {
      setInlineMessage("retrieve-message", "Chave nao encontrada. ...", { error: true });
    }
  }
  \<close>
  The first argument is the text of the input field (the form has the field); the second
  is the server, as the reply it gives to a lookup of a key.
\<close>

definition handleRetrieveSubmit ::
  "string \<Rightarrow> (nat list \<Rightarrow> result_data response) \<Rightarrow> state \<Rightarrow> state" where
  "handleRetrieveSubmit inputValue server s =
     (let rawValue = normalizeResultId inputValue in
      if rawValue = [] then s\<lparr>retrieveMessage := Some (msgEnterKey, True)\<rparr>
      else if \<not> RESULT_ID_REGEX_test rawValue then
        s\<lparr>retrieveMessage := Some (msgInvalidFormat, True)\<rparr>
      else
        (let s1 = s\<lparr>retrieveMessage := Some (msgSearching, False),
                      requests := requests s @ [GetResult rawValue]\<rparr> in
         case server rawValue of
           Delivered data \<Rightarrow>
             (handleResult data (s1\<lparr>answers := orNoAnswers (d_answers data)\<rparr>))
               \<lparr>retrieveMessage := Some (msgLoaded, False)\<rparr>
         | Failed \<Rightarrow> s1\<lparr>retrieveMessage := Some (msgNotFound, True)\<rparr>))"

text \<open>
  The key the landing page leaves in the session storage is looked up when the page
  loads, as it is:
  \<^verbatim>\<open>
  loadResultById(pendingKey)
    .then((data) => {
      answers = data.answers || {};
      handleResult(data);
      setInlineMessage("result-key-message", "Resultado recuperado pela sua chave IDEO.");
    })
    .catch((err) => { quizMsg.textContent = "Nao foi possivel recuperar ..."; ... });
  \<close>
\<close>

definition loadPendingKey ::
  "string \<Rightarrow> (nat list \<Rightarrow> result_data response) \<Rightarrow> state \<Rightarrow> state" where
  "loadPendingKey pendingKey server s =
     (if pendingKey = [] then s
      else
        (let s1 = s\<lparr>requests := requests s @ [GetResult (units pendingKey)]\<rparr> in
         case server (units pendingKey) of
           Delivered data \<Rightarrow>
             (handleResult data (s1\<lparr>answers := orNoAnswers (d_answers data)\<rparr>))
               \<lparr>resultKeyMessage := Some (msgRecovered, False)\<rparr>
         | Failed \<Rightarrow> s1\<lparr>quizMessage := Some msgNotRecovered\<rparr>))"

section \<open>Navigation, answers and restart\<close>

text \<open>
  \<open>renderPage\<close> draws the current page; of the modelled state it only hides the quiz
  message, and it does nothing when there is no page.
\<close>

definition renderPage :: "state \<Rightarrow> state" where
  "renderPage s = (if pages s = [] then s else s\<lparr>quizMessage := None\<rparr>)"

text \<open>
  \<^verbatim>\<open>
  prev-btn:  if (currentPageIndex > 0) { currentPageIndex--; renderPage(); }
  next-btn:  if (currentPageIndex < pages.length - 1) { currentPageIndex++; renderPage(); }
             else { submitAnswers(); }
  \<close>
\<close>

definition prevClick :: "state \<Rightarrow> state" where
  "prevClick s =
     (if currentPageIndex s > 0 then renderPage (s\<lparr>currentPageIndex := currentPageIndex s - 1\<rparr>)
      else s)"

definition nextClick ::
  "result_data response \<Rightarrow> string option response \<Rightarrow> state \<Rightarrow> state" where
  "nextClick scoring saving s =
     (if int (currentPageIndex s) < int (length (pages s)) - 1 then
        renderPage (s\<lparr>currentPageIndex := currentPageIndex s + 1\<rparr>)
      else submitAnswers scoring saving s)"

text \<open>
  The callback of a Likert control: \<^verbatim>\<open>answers[qId] = newValue;\<close>. On a plain object the
  key \<open>__proto__\<close> is an accessor inherited from \<open>Object.prototype\<close>: assigning a number to
  it changes nothing, unless the object has an own property of that name (which
  \<open>JSON.parse\<close> can create).
\<close>

definition recordAnswer :: "string \<Rightarrow> int \<Rightarrow> state \<Rightarrow> state" where
  "recordAnswer qId newValue s =
     (if qId = ''__proto__'' \<and> answers s qId = None then s
      else s\<lparr>answers := (answers s)(qId \<mapsto> newValue)\<rparr>)"

text \<open>
  \<^verbatim>\<open>
  function resetQuiz() {
    answers = {};
    latestResult = null;
    latestResultId = null;
    currentPageIndex = 0;
    ... hide the result section, show the quiz, destroy the charts ...
    updateResultKeyDisplay(null);
    setInlineMessage("result-key-message", "");
    renderPage();
  }
  \<close>
\<close>

definition resetQuiz :: "state \<Rightarrow> state" where
  "resetQuiz s =
     renderPage (s\<lparr>answers := Map.empty, latestResult := None, latestResultId := None,
                   currentPageIndex := 0, resultVisible := False, resultKeyShown := None,
                   resultKeyMessage := None\<rparr>)"

text \<open>
  \<open>fetchQuestions\<close>: a reply that is a list of questions (bare, or under \<open>questions\<close>)
  replaces the question set, the pages are rebuilt and the first page is drawn. A failed
  call, and an exception of \<open>buildPagesByAxis\<close>, end in the \<open>catch\<close> block, which writes an
  error text into the question container.
\<close>

definition fetchQuestions :: "question list response \<Rightarrow> state \<Rightarrow> state" where
  "fetchQuestions reply s =
     (case reply of
        Failed \<Rightarrow> s
      | Delivered qs \<Rightarrow>
          (case buildPagesByAxis (s\<lparr>questions := qs\<rparr>) of
             Inl e \<Rightarrow> s\<lparr>questions := qs\<rparr>
           | Inr s' \<Rightarrow> renderPage s'))"

text \<open>The user's actions and the page load, as events, and a session as a list of them.\<close>

datatype event =
    QuestionsFetched "question list response"
  | PendingKeyLoaded string "nat list \<Rightarrow> result_data response"
  | AnswerChosen string int
  | PrevClicked
  | NextClicked "result_data response" "string option response"
  | RetrieveSubmitted string "nat list \<Rightarrow> result_data response"
  | RestartClicked

fun step :: "event \<Rightarrow> state \<Rightarrow> state" where
  "step (QuestionsFetched reply) s = fetchQuestions reply s"
| "step (PendingKeyLoaded k server) s = loadPendingKey k server s"
| "step (AnswerChosen qId v) s = recordAnswer qId v s"
| "step PrevClicked s = prevClick s"
| "step (NextClicked scoring saving) s = nextClick scoring saving s"
| "step (RetrieveSubmitted v server) s = handleRetrieveSubmit v server s"
| "step RestartClicked s = resetQuiz s"

fun run :: "event list \<Rightarrow> state \<Rightarrow> state" where
  "run [] s = s"
| "run (e # es) s = run es (step e s)"

fun isNavigation :: "event \<Rightarrow> bool" where
  "isNavigation PrevClicked = True"
| "isNavigation (NextClicked scoring saving) = True"
| "isNavigation e = False"

fun isAnswerChosen :: "event \<Rightarrow> bool" where
  "isAnswerChosen (AnswerChosen qId v) = True"
| "isAnswerChosen e = False"

fun isRetrieval :: "event \<Rightarrow> bool" where
  "isRetrieval (RetrieveSubmitted v server) = True"
| "isRetrieval (PendingKeyLoaded k server) = True"
| "isRetrieval e = False"

text \<open>A server that gives the same reply to every lookup, for closed examples.\<close>

definition constantServer :: "result_data response \<Rightarrow> nat list \<Rightarrow> result_data response" where
  "constantServer reply k = reply"

text \<open>
  For the statements about pages: the distinct elements of a list in the order of their
  first occurrence, the page a list of questions gives for one axis, and the two orders
  of axes, the one the specification claims and the one \<open>Object.keys\<close> gives.
\<close>

definition firstSeen :: "'a list \<Rightarrow> 'a list" where
  "firstSeen xs = rev (remdups (rev xs))"

definition pageFor :: "question list \<Rightarrow> string \<Rightarrow> page" where
  "pageFor qs a = \<lparr>p_axis = a, p_questions = filter (\<lambda>q. axisKey q = a) qs\<rparr>"

definition claimedAxisOrder :: "question list \<Rightarrow> string list" where
  "claimedAxisOrder qs =
     (let seen = firstSeen (map axisKey qs) in
      filter (\<lambda>a. a \<in> set seen) axisOrder @ filter (\<lambda>a. a \<notin> set axisOrder) seen)"

definition builtAxisOrder :: "question list \<Rightarrow> string list" where
  "builtAxisOrder qs =
     (let seen = firstSeen (map axisKey qs);
          rest = filter (\<lambda>a. a \<notin> set axisOrder) seen in
      filter (\<lambda>a. a \<in> set seen) axisOrder
      @ sort_key arrayIndexValue (filter isArrayIndex rest)
      @ filter (\<lambda>a. \<not> isArrayIndex a) rest)"

definition noInheritedAxis :: "question list \<Rightarrow> bool" where
  "noInheritedAxis qs = list_all (\<lambda>q. axisKey q \<notin> set ObjectPrototypeKeys) qs"

text \<open>The object the grouping loop has built after a list of questions.\<close>

definition grouped :: "question list \<Rightarrow> question list jsobject" where
  "grouped qs = map (\<lambda>a. (a, filter (\<lambda>q. axisKey q = a) qs)) (firstSeen (map axisKey qs))"

text \<open>The values the module-level variables start with.\<close>

definition initialState :: state where
  "initialState =
     \<lparr>questions = [], pages = [], currentPageIndex = 0, answers = Map.empty,
      latestResult = None, latestResultId = None, quizMessage = None,
      resultKeyMessage = None, retrieveMessage = None, resultKeyShown = None,
      resultVisible = False, requests = []\<rparr>"

text \<open>The axes of the pages built from a list of questions, in page order.\<close>

definition builtAxes :: "question list \<Rightarrow> js_error + string list" where
  "builtAxes qs =
     (case buildPagesByAxis (initialState\<lparr>questions := qs\<rparr>) of
        Inl e \<Rightarrow> Inl e
      | Inr s \<Rightarrow> Inr (map p_axis (pages s)))"

definition mkQuestion :: "string \<Rightarrow> string option \<Rightarrow> question" where
  "mkQuestion i a = \<lparr>q_id = i, q_axis = a, q_text = ''...''\<rparr>"

text \<open>
  A saved result as the lookup delivers it in the round-trip scenario of the
  specification, and a quiz of two pages.
\<close>

definition savedResult :: result_data where
  "savedResult =
     \<lparr>d_axes = Some [(''economic'', JNum (Fin 10)), (''social'', JNum (Fin (- 2)))],
      d_profile = Some [(''key'', ''p1''), (''label'', ''Liberal'')],
      d_result_id = Some ''IDEO-AB12-CD34'', d_id = None,
      d_answers = Some [''q1'' \<mapsto> 2, ''q2'' \<mapsto> - 1]\<rparr>"

definition twoPageQuiz :: state where
  "twoPageQuiz =
     initialState
       \<lparr>questions := [mkQuestion ''q1'' (Some ''economic''), mkQuestion ''q2'' (Some ''social'')],
        pages := [\<lparr>p_axis = ''economic'', p_questions = [mkQuestion ''q1'' (Some ''economic'')]\<rparr>,
                  \<lparr>p_axis = ''social'', p_questions = [mkQuestion ''q2'' (Some ''social'')]\<rparr>]\<rparr>"

text \<open>
  For the statements about keys, independently of the two functions above: the capital of
  a letter by the table of the alphabet, and the texts that are a key up to the case of
  their letters.
\<close>

definition capitalLetter :: "char \<Rightarrow> char" where
  "capitalLetter c =
     (case map_of (zip ''abcdefghijklmnopqrstuvwxyz'' ''ABCDEFGHIJKLMNOPQRSTUVWXYZ'') c of
        Some u \<Rightarrow> u
      | None \<Rightarrow> c)"

definition isLetterOrDigit :: "char \<Rightarrow> bool" where
  "isLetterOrDigit c =
     (c \<in> set ''ABCDEFGHIJKLMNOPQRSTUVWXYZabcdefghijklmnopqrstuvwxyz0123456789'')"

definition isKeyInAnyCase :: "string \<Rightarrow> bool" where
  "isKeyInAnyCase k =
     (length k = 14
      \<and> list_all2 (\<lambda>c cs. c \<in> set cs) (take 5 k) [''Ii'', ''Dd'', ''Ee'', ''Oo'', ''-'']
      \<and> list_all isLetterOrDigit (take 4 (drop 5 k))
      \<and> take 1 (drop 9 k) = ''-''
      \<and> list_all isLetterOrDigit (drop 10 k))"

section \<open>Properties of key normalisation\<close>

lemma toUpperCase_Nil [simp]: "toUpperCase [] = []"
  by (simp add: toUpperCase_def)

lemma trim_Nil [simp]: "trim [] = []"
  by (simp add: trim_def)

lemma dropWhile_all_prefix:
  "list_all P pre \<Longrightarrow> dropWhile P (pre @ xs) = dropWhile P xs"
  by (induction pre) auto

lemma trim_surrounded:
  assumes pre: "list_all isWhiteSpace pre" and post: "list_all isWhiteSpace post"
    and ne: "k \<noteq> []" and h: "\<not> isWhiteSpace (hd k)" and l: "\<not> isWhiteSpace (last k)"
  shows "trim (pre @ k @ post) = k"
proof -
  have a: "dropWhile isWhiteSpace (pre @ k @ post) = k @ post"
    using pre ne h by (cases k) (simp_all add: dropWhile_all_prefix)
  have b: "dropWhile isWhiteSpace (rev post @ rev k) = rev k"
  proof -
    have "list_all isWhiteSpace (rev post)"
      using post by (simp add: list_all_iff)
    then have "dropWhile isWhiteSpace (rev post @ rev k) = dropWhile isWhiteSpace (rev k)"
      by (rule dropWhile_all_prefix)
    moreover have "dropWhile isWhiteSpace (rev k) = rev k"
      using ne l by (cases k rule: rev_cases) simp_all
    ultimately show ?thesis by simp
  qed
  show ?thesis
    by (simp add: trim_def a b)
qed

lemma trim_decomposition:
  "\<exists>pre post. s = pre @ trim s @ post \<and> list_all isWhiteSpace pre \<and> list_all isWhiteSpace post"
proof -
  define r where "r = dropWhile isWhiteSpace s"
  have a: "s = takeWhile isWhiteSpace s @ r"
    by (simp add: r_def)
  have "r = rev (rev r)"
    by simp
  also have "\<dots> = rev (takeWhile isWhiteSpace (rev r) @ dropWhile isWhiteSpace (rev r))"
    by (simp only: takeWhile_dropWhile_id)
  also have "\<dots> = rev (dropWhile isWhiteSpace (rev r)) @ rev (takeWhile isWhiteSpace (rev r))"
    by (rule rev_append)
  finally have b0:
    "r = rev (dropWhile isWhiteSpace (rev r)) @ rev (takeWhile isWhiteSpace (rev r))" .
  have t: "trim s = rev (dropWhile isWhiteSpace (rev r))"
    by (simp add: trim_def r_def)
  have b: "r = trim s @ rev (takeWhile isWhiteSpace (rev r))"
    unfolding t by (rule b0)
  have c: "list_all isWhiteSpace (takeWhile isWhiteSpace s)"
    by (auto simp: list_all_iff dest: set_takeWhileD)
  have d: "list_all isWhiteSpace (rev (takeWhile isWhiteSpace (rev r)))"
    by (auto simp: list_all_iff dest: set_takeWhileD)
  have "s = takeWhile isWhiteSpace s @ trim s @ rev (takeWhile isWhiteSpace (rev r))"
    by (subst a, subst b) (rule refl)
  with c d show ?thesis by blast
qed

lemma last_dropWhile: "dropWhile P xs \<noteq> [] \<Longrightarrow> last (dropWhile P xs) = last xs"
  by (induction xs) (auto split: if_splits)

lemma trim_ends:
  assumes "trim s \<noteq> []"
  shows "\<not> isWhiteSpace (hd (trim s)) \<and> \<not> isWhiteSpace (last (trim s))"
proof -
  define r where "r = dropWhile isWhiteSpace s"
  define t where "t = dropWhile isWhiteSpace (rev r)"
  have ts: "trim s = rev t"
    by (simp add: trim_def r_def t_def)
  with assms have tn: "t \<noteq> []" by simp
  then have rn: "r \<noteq> []" by (auto simp: t_def)
  from tn have l: "\<not> isWhiteSpace (hd t)"
    unfolding t_def by (rule hd_dropWhile)
  from tn have "last t = last (rev r)"
    unfolding t_def by (rule last_dropWhile)
  also have "\<dots> = hd r"
    using rn by (simp add: last_rev)
  finally have "last t = hd r" .
  moreover from rn have "\<not> isWhiteSpace (hd r)"
    unfolding r_def by (rule hd_dropWhile)
  ultimately have h: "\<not> isWhiteSpace (last t)" by simp
  from tn l h show ?thesis
    by (simp add: ts hd_rev last_rev)
qed

lemma upperUnits_capital:
  assumes "isLetterOrDigit c \<or> c = CHR ''-''"
  shows "upperUnits c = [of_char (capitalLetter c)] \<and> \<not> isWhiteSpace c"
proof -
  from assms have "c \<in> set ''ABCDEFGHIJKLMNOPQRSTUVWXYZabcdefghijklmnopqrstuvwxyz0123456789-''"
    by (auto simp: isLetterOrDigit_def)
  then show ?thesis
    unfolding set_simps insert_iff empty_iff
    by (elim disjE FalseE; simp add: upperUnits_def capitalLetter_def isWhiteSpace_def)
qed

lemma keyUnit_capital:
  assumes "isLetterOrDigit c"
  shows "isKeyUnit (of_char (capitalLetter c))"
  using assms unfolding isLetterOrDigit_def set_simps insert_iff empty_iff
  by (elim disjE FalseE; simp add: capitalLetter_def isKeyUnit_def)

lemma toUpperCase_capitals:
  "list_all (\<lambda>c. isLetterOrDigit c \<or> c = CHR ''-'') k \<Longrightarrow>
     toUpperCase k = units (map capitalLetter k)"
  by (induction k) (simp_all add: toUpperCase_def units_def upperUnits_capital)

lemma key_parts:
  "k = take 5 k @ take 4 (drop 5 k) @ take 1 (drop 9 k) @ drop 10 k"
proof -
  have a: "drop 4 (drop 5 k) = drop 9 k" and b: "drop 1 (drop 9 k) = drop 10 k"
    by simp_all
  have "take 1 (drop 9 k) @ drop 10 k = drop 9 k"
    using append_take_drop_id [of 1 "drop 9 k"] by (simp only: b)
  then have "take 4 (drop 5 k) @ take 1 (drop 9 k) @ drop 10 k = drop 5 k"
    using append_take_drop_id [of 4 "drop 5 k"] by (simp only: a)
  then show ?thesis
    using append_take_drop_id [of 5 k] by (simp only:)
qed

lemma key_prefix_cases:
  assumes "list_all2 (\<lambda>c cs. c \<in> set cs) p [''Ii'', ''Dd'', ''Ee'', ''Oo'', ''-'']"
  shows "\<exists>a b c d. p = [a, b, c, d, CHR ''-'']
           \<and> (a = CHR ''I'' \<or> a = CHR ''i'') \<and> (b = CHR ''D'' \<or> b = CHR ''d'')
           \<and> (c = CHR ''E'' \<or> c = CHR ''e'') \<and> (d = CHR ''O'' \<or> d = CHR ''o'')"
  using assms by (simp add: list_all2_Cons2) blast

lemma key_prefix_capitals:
  assumes "list_all2 (\<lambda>c cs. c \<in> set cs) p [''Ii'', ''Dd'', ''Ee'', ''Oo'', ''-'']"
  shows "map capitalLetter p = ''IDEO-'' \<and> list_all (\<lambda>c. isLetterOrDigit c \<or> c = CHR ''-'') p"
proof -
  from key_prefix_cases [OF assms] obtain a b c d where p: "p = [a, b, c, d, CHR ''-'']"
    and a: "a = CHR ''I'' \<or> a = CHR ''i''" and b: "b = CHR ''D'' \<or> b = CHR ''d''"
    and c: "c = CHR ''E'' \<or> c = CHR ''e''" and d: "d = CHR ''O'' \<or> d = CHR ''o''"
    by blast
  from a have a': "capitalLetter a = CHR ''I'' \<and> isLetterOrDigit a"
    by (elim disjE) (simp_all add: capitalLetter_def isLetterOrDigit_def)
  from b have b': "capitalLetter b = CHR ''D'' \<and> isLetterOrDigit b"
    by (elim disjE) (simp_all add: capitalLetter_def isLetterOrDigit_def)
  from c have c': "capitalLetter c = CHR ''E'' \<and> isLetterOrDigit c"
    by (elim disjE) (simp_all add: capitalLetter_def isLetterOrDigit_def)
  from d have d': "capitalLetter d = CHR ''O'' \<and> isLetterOrDigit d"
    by (elim disjE) (simp_all add: capitalLetter_def isLetterOrDigit_def)
  have h: "capitalLetter CHR ''-'' = CHR ''-''"
    by (simp add: capitalLetter_def)
  from a' b' c' d' h show ?thesis
    unfolding p by simp
qed

lemma key_chars:
  assumes "isKeyInAnyCase k"
  shows "list_all (\<lambda>c. isLetterOrDigit c \<or> c = CHR ''-'') k"
proof -
  let ?Q = "\<lambda>c. isLetterOrDigit c \<or> c = CHR ''-''"
  from assms have h: "list_all2 (\<lambda>c cs. c \<in> set cs) (take 5 k) [''Ii'', ''Dd'', ''Ee'', ''Oo'', ''-'']"
    and g1: "list_all isLetterOrDigit (take 4 (drop 5 k))"
    and m: "take 1 (drop 9 k) = ''-''"
    and g2: "list_all isLetterOrDigit (drop 10 k)"
    by (simp_all add: isKeyInAnyCase_def)
  from key_prefix_capitals [OF h] have a: "list_all ?Q (take 5 k)"
    by blast
  from g1 have b: "list_all ?Q (take 4 (drop 5 k))"
    by (simp add: list_all_iff)
  from m have c: "list_all ?Q (take 1 (drop 9 k))"
    by simp
  from g2 have d: "list_all ?Q (drop 10 k)"
    by (simp add: list_all_iff)
  from a b c d have "list_all ?Q (take 5 k @ take 4 (drop 5 k) @ take 1 (drop 9 k) @ drop 10 k)"
    by (simp only: list_all_append simp_thms)
  then show ?thesis
    using key_parts [of k] by (simp only:)
qed

lemma key_head_last:
  assumes "isKeyInAnyCase k"
  shows "k \<noteq> [] \<and> \<not> isWhiteSpace (hd k) \<and> \<not> isWhiteSpace (last k)"
proof -
  from assms have len: "length k = 14"
    by (simp add: isKeyInAnyCase_def)
  then have ne: "k \<noteq> []" by auto
  have q: "list_all (\<lambda>c. isLetterOrDigit c \<or> c = CHR ''-'') k"
    using assms by (rule key_chars)
  from ne have "hd k \<in> set k" and "last k \<in> set k" by simp_all
  with q have "isLetterOrDigit (hd k) \<or> hd k = CHR ''-''"
    and "isLetterOrDigit (last k) \<or> last k = CHR ''-''"
    by (simp_all add: list_all_iff)
  with ne show ?thesis
    by (simp add: upperUnits_capital)
qed

lemma key_capitals_match:
  assumes "isKeyInAnyCase k"
  shows "RESULT_ID_REGEX_test (units (map capitalLetter k))"
proof -
  from assms have len: "length k = 14"
    and h: "list_all2 (\<lambda>c cs. c \<in> set cs) (take 5 k) [''Ii'', ''Dd'', ''Ee'', ''Oo'', ''-'']"
    and g1: "list_all isLetterOrDigit (take 4 (drop 5 k))"
    and m: "take 1 (drop 9 k) = ''-''"
    and g2: "list_all isLetterOrDigit (drop 10 k)"
    by (simp_all add: isKeyInAnyCase_def)
  from key_prefix_capitals [OF h] have "map capitalLetter (take 5 k) = ''IDEO-''"
    by blast
  then have a: "take 5 (units (map capitalLetter k)) = units ''IDEO-''"
    by (simp only: units_def take_map)
  from g1 have b: "list_all isKeyUnit (take 4 (drop 5 (units (map capitalLetter k))))"
    by (simp add: units_def list_all_iff keyUnit_capital take_map drop_map)
  have "map capitalLetter (take 1 (drop 9 k)) = ''-''"
    unfolding m by (simp add: capitalLetter_def)
  then have c: "take 1 (drop 9 (units (map capitalLetter k))) = units ''-''"
    by (simp only: units_def take_map drop_map)
  from g2 have d: "list_all isKeyUnit (drop 10 (units (map capitalLetter k)))"
    by (simp add: units_def list_all_iff keyUnit_capital drop_map)
  have l: "length (units (map capitalLetter k)) = 14"
    using len by (simp add: units_def)
  from l a b c d show ?thesis
    unfolding RESULT_ID_REGEX_test_def by (intro conjI)
qed

text \<open>
  Claim C9. Key normalisation strips leading and trailing white space and uppercases: for
  every input text \<open>normalizeResultId\<close> returns the uppercase form of the trimmed text
  (the guard on the empty string changes nothing), where the trimmed text is what is left
  of the input between a leading and a trailing run of white space, and neither starts
  nor ends with white space. Hence a key in any letter case, surrounded by any amount
  of white space, normalises to the key with its letters capital, and passes the format
  check; \<open>" ideo-ab12-cd34 "\<close> normalises to \<open>"IDEO-AB12-CD34"\<close>, which passes. The further
  conjuncts are values of the two host functions: the seven white space characters, three
  characters that are not, the capitals of the alphabet, characters without a capital, and
  the letters outside ASCII.
\<close>

theorem normalizeResultId_trims_and_uppercases:
  "normalizeResultId s = toUpperCase (trim s)
   \<and> (\<exists>pre post. s = pre @ trim s @ post
         \<and> list_all isWhiteSpace pre \<and> list_all isWhiteSpace post)
   \<and> (trim s = [] \<or> (\<not> isWhiteSpace (hd (trim s)) \<and> \<not> isWhiteSpace (last (trim s))))
   \<and> (list_all isWhiteSpace pre \<and> list_all isWhiteSpace post \<and> isKeyInAnyCase k
      \<longrightarrow> normalizeResultId (pre @ k @ post) = units (map capitalLetter k)
          \<and> RESULT_ID_REGEX_test (normalizeResultId (pre @ k @ post)))
   \<and> list_all isWhiteSpace
        [CHR 0x09, CHR 0x0A, CHR 0x0B, CHR 0x0C, CHR 0x0D, CHR 0x20, CHR 0xA0]
   \<and> \<not> isWhiteSpace (CHR 0x1F) \<and> \<not> isWhiteSpace (CHR 0x85) \<and> \<not> isWhiteSpace (CHR ''_'')
   \<and> toUpperCase ''abcdefghijklmnopqrstuvwxyz'' = units ''ABCDEFGHIJKLMNOPQRSTUVWXYZ''
   \<and> toUpperCase ''AMZ0123456789-_ @[`{'' = units ''AMZ0123456789-_ @[`{''
   \<and> toUpperCase [CHR 0xB5, CHR 0xDF, CHR 0xE0, CHR 0xE9, CHR 0xF7, CHR 0xFE, CHR 0xFF]
       = [0x39C, 0x53, 0x53, 0xC0, 0xC9, 0xF7, 0xDE, 0x178]
   \<and> normalizeResultId '' ideo-ab12-cd34 '' = units ''IDEO-AB12-CD34''
   \<and> RESULT_ID_REGEX_test (normalizeResultId '' ideo-ab12-cd34 '')
   \<and> normalizeResultId
        ([CHR 0xA0, CHR 0x09] @ ''ideo-a'' @ [CHR 0xDF] @ ''1-cd34'' @ [CHR 0x0D, CHR 0x0A])
       = units ''IDEO-ASS1-CD34''"
proof -
  have a: "normalizeResultId s = toUpperCase (trim s)"
    by (simp add: normalizeResultId_def)
  have b: "\<exists>pre post. s = pre @ trim s @ post
         \<and> list_all isWhiteSpace pre \<and> list_all isWhiteSpace post"
    by (rule trim_decomposition)
  have c: "trim s = [] \<or> (\<not> isWhiteSpace (hd (trim s)) \<and> \<not> isWhiteSpace (last (trim s)))"
    using trim_ends [of s] by blast
  have d: "list_all isWhiteSpace pre \<and> list_all isWhiteSpace post \<and> isKeyInAnyCase k
      \<longrightarrow> normalizeResultId (pre @ k @ post) = units (map capitalLetter k)
          \<and> RESULT_ID_REGEX_test (normalizeResultId (pre @ k @ post))"
  proof
    assume h: "list_all isWhiteSpace pre \<and> list_all isWhiteSpace post \<and> isKeyInAnyCase k"
    then have e: "k \<noteq> [] \<and> \<not> isWhiteSpace (hd k) \<and> \<not> isWhiteSpace (last k)"
      using key_head_last by blast
    with h have t: "trim (pre @ k @ post) = k"
      by (simp add: trim_surrounded)
    from e have "pre @ k @ post \<noteq> []" by simp
    with t have "normalizeResultId (pre @ k @ post) = toUpperCase k"
      by (simp add: normalizeResultId_def)
    also from h have "\<dots> = units (map capitalLetter k)"
      by (simp add: toUpperCase_capitals key_chars)
    finally have n: "normalizeResultId (pre @ k @ post) = units (map capitalLetter k)" .
    from h have "RESULT_ID_REGEX_test (units (map capitalLetter k))"
      by (simp add: key_capitals_match)
    with n show "normalizeResultId (pre @ k @ post) = units (map capitalLetter k)
          \<and> RESULT_ID_REGEX_test (normalizeResultId (pre @ k @ post))"
      by simp
  qed
  have e: "list_all isWhiteSpace
        [CHR 0x09, CHR 0x0A, CHR 0x0B, CHR 0x0C, CHR 0x0D, CHR 0x20, CHR 0xA0]"
    "\<not> isWhiteSpace (CHR 0x1F)" "\<not> isWhiteSpace (CHR 0x85)" "\<not> isWhiteSpace (CHR ''_'')"
    by (simp_all add: isWhiteSpace_def)
  have f: "toUpperCase ''abcdefghijklmnopqrstuvwxyz'' = units ''ABCDEFGHIJKLMNOPQRSTUVWXYZ''"
    "toUpperCase ''AMZ0123456789-_ @[`{'' = units ''AMZ0123456789-_ @[`{''"
    "toUpperCase [CHR 0xB5, CHR 0xDF, CHR 0xE0, CHR 0xE9, CHR 0xF7, CHR 0xFE, CHR 0xFF]
       = [0x39C, 0x53, 0x53, 0xC0, 0xC9, 0xF7, 0xDE, 0x178]"
    by (simp_all add: toUpperCase_def upperUnits_def units_def)
  have g: "normalizeResultId '' ideo-ab12-cd34 '' = units ''IDEO-AB12-CD34''"
    by (simp add: normalizeResultId_def toUpperCase_def trim_def isWhiteSpace_def
        upperUnits_def units_def)
  have i: "RESULT_ID_REGEX_test (normalizeResultId '' ideo-ab12-cd34 '')"
    unfolding g by (simp add: RESULT_ID_REGEX_test_def isKeyUnit_def units_def)
  have j: "normalizeResultId
        ([CHR 0xA0, CHR 0x09] @ ''ideo-a'' @ [CHR 0xDF] @ ''1-cd34'' @ [CHR 0x0D, CHR 0x0A])
       = units ''IDEO-ASS1-CD34''"
    by (simp add: normalizeResultId_def toUpperCase_def trim_def isWhiteSpace_def
        upperUnits_def units_def)
  from a b c d e f g i j show ?thesis
    by (intro conjI)
qed

theorem normalizeResultId_trims_and_uppercases_witness:
  "list_all isWhiteSpace [CHR 0xA0, CHR 0x09] \<and> list_all isWhiteSpace [CHR 0x0A]
   \<and> isKeyInAnyCase ''Ideo-9zQ4-x0y1''
   \<and> normalizeResultId ([CHR 0xA0, CHR 0x09] @ ''Ideo-9zQ4-x0y1'' @ [CHR 0x0A])
       = units ''IDEO-9ZQ4-X0Y1''
   \<and> RESULT_ID_REGEX_test
        (normalizeResultId ([CHR 0xA0, CHR 0x09] @ ''Ideo-9zQ4-x0y1'' @ [CHR 0x0A]))"
proof -
  have h: "list_all isWhiteSpace [CHR 0xA0, CHR 0x09] \<and> list_all isWhiteSpace [CHR 0x0A]
           \<and> isKeyInAnyCase ''Ideo-9zQ4-x0y1''"
    by (simp add: isWhiteSpace_def isKeyInAnyCase_def isLetterOrDigit_def)
  have u: "units (map capitalLetter ''Ideo-9zQ4-x0y1'') = units ''IDEO-9ZQ4-X0Y1''"
    by (simp add: capitalLetter_def)
  from normalizeResultId_trims_and_uppercases
    [of _ "[CHR 0xA0, CHR 0x09]" "[CHR 0x0A]" "''Ideo-9zQ4-x0y1''"] h
  have r: "normalizeResultId ([CHR 0xA0, CHR 0x09] @ ''Ideo-9zQ4-x0y1'' @ [CHR 0x0A])
        = units (map capitalLetter ''Ideo-9zQ4-x0y1'')"
    and t: "RESULT_ID_REGEX_test
        (normalizeResultId ([CHR 0xA0, CHR 0x09] @ ''Ideo-9zQ4-x0y1'' @ [CHR 0x0A]))"
    by blast+
  from r have r': "normalizeResultId ([CHR 0xA0, CHR 0x09] @ ''Ideo-9zQ4-x0y1'' @ [CHR 0x0A])
        = units ''IDEO-9ZQ4-X0Y1''"
    by (simp only: u)
  from h r' t show ?thesis
    by blast
qed

section \<open>Properties of score interpretation\<close>

lemma band_conditions:
  fixes score :: rat
  shows "(\<bar>score\<bar> \<ge> 7 \<and> score > 0) = (7 \<le> score)"
    and "(\<bar>score\<bar> \<ge> 3 \<and> score > 0) = (3 \<le> score)"
    and "(\<bar>score\<bar> \<ge> 7 \<and> score < 0) = (score \<le> - 7)"
    and "(\<bar>score\<bar> \<ge> 3 \<and> score < 0) = (score \<le> - 3)"
  by (auto simp: abs_if)

lemma getAxisNumber_JNum: "getAxisNumber S (JNum (Fin x)) = Some x"
  by (simp add: getAxisNumber_def)

lemma getAxisNumber_Number: "getAxisNumber S (JNum (Number S raw)) = getAxisNumber S raw"
  by (simp add: getAxisNumber_def)

lemma getAxisNumber_None: "getAxisNumber S raw = None \<longleftrightarrow> \<not> isFinite (Number S raw)"
  by (cases "Number S raw") (simp_all add: getAxisNumber_def)

lemma interpret_economic:
  "interpretAxisScore S ''economic'' (JNum (Fin x)) = bandText ''economic'' (band_of x)"
  by (simp add: interpretAxisScore_def getAxisNumber_JNum band_conditions band_of_def
      bandText_def economicTexts_def)

lemma interpret_social:
  "interpretAxisScore S ''social'' (JNum (Fin x)) = bandText ''social'' (band_of x)"
  by (simp add: interpretAxisScore_def getAxisNumber_JNum band_conditions band_of_def
      bandText_def socialTexts_def)

lemma interpret_community:
  "interpretAxisScore S ''community'' (JNum (Fin x)) = bandText ''community'' (band_of x)"
  by (simp add: interpretAxisScore_def getAxisNumber_JNum band_conditions band_of_def
      bandText_def communityTexts_def)

lemma interpret_method:
  "interpretAxisScore S ''method'' (JNum (Fin x)) = bandText ''method'' (band_of x)"
  by (simp add: interpretAxisScore_def getAxisNumber_JNum band_conditions band_of_def
      bandText_def methodTexts_def)

lemma interpret_pragmatism:
  "interpretAxisScore S ''pragmatism'' (JNum (Fin x)) = bandText ''pragmatism'' (band_of x)"
  by (simp add: interpretAxisScore_def getAxisNumber_JNum band_conditions band_of_def
      bandText_def pragmatismTexts_def)

lemma axisOrder_cases:
  "axis \<in> set axisOrder \<Longrightarrow>
     axis = ''economic'' \<or> axis = ''social'' \<or> axis = ''community'' \<or> axis = ''method''
     \<or> axis = ''pragmatism''"
  by (simp add: axisOrder_def)

lemma interpret_known:
  assumes "axis \<in> set axisOrder"
  shows "interpretAxisScore S axis (JNum (Fin x)) = bandText axis (band_of x)"
  using axisOrder_cases [OF assms]
  by (elim disjE)
    (simp_all only: interpret_economic interpret_social interpret_community interpret_method
      interpret_pragmatism)

lemma interpret_outside:
  "axis \<notin> set axisOrder \<Longrightarrow> interpretAxisScore S axis (JNum (Fin x)) = outsideCoreSet"
  by (simp add: interpretAxisScore_def getAxisNumber_JNum axisOrder_def outsideCoreSet_def)

lemma interpret_not_finite:
  "\<not> isFinite n \<Longrightarrow> interpretAxisScore S axis (JNum n) = insufficientData"
  by (cases n) (simp_all add: interpretAxisScore_def getAxisNumber_def insufficientData_def)


lemma bandText_not_insufficient: "bandText axis b \<noteq> insufficientData"
  by (cases b)
    (simp_all add: bandText_def economicTexts_def socialTexts_def communityTexts_def
      methodTexts_def pragmatismTexts_def insufficientData_def)

lemma interpret_finite_not_insufficient:
  "interpretAxisScore S axis (JNum (Fin x)) \<noteq> insufficientData"
proof (cases "axis \<in> set axisOrder")
  case True
  then show ?thesis
    by (simp add: interpret_known bandText_not_insufficient)
next
  case False
  then show ?thesis
    by (simp add: interpret_outside outsideCoreSet_def insufficientData_def)
qed

lemma interpret_coerces:
  "interpretAxisScore S axis raw = interpretAxisScore S axis (JNum (Number S raw))"
  by (simp add: interpretAxisScore_def getAxisNumber_Number)




text \<open>
  Claim C10. Score interpretation coerces its input with \<open>Number\<close> before it classifies:
  for every axis and every input, \<open>interpretAxisScore axis raw\<close> is
  \<open>interpretAxisScore axis (Number raw)\<close>; in particular a string \<open>s\<close> is interpreted as
  the number it parses to. The insufficient-data text is returned exactly when
  \<open>Number raw\<close> is not finite. With a parser that reads \<open>"8"\<close> as 8,
  \<open>interpretAxisScore "economic" "8"\<close> is \<open>interpretAxisScore "economic" 8\<close> and is not the
  insufficient-data text.
\<close>

theorem interpretAxisScore_coerces_with_Number:
  "interpretAxisScore S axis raw = interpretAxisScore S axis (JNum (Number S raw))
   \<and> interpretAxisScore S axis (JStr s) = interpretAxisScore S axis (JNum (S s))
   \<and> ((interpretAxisScore S axis raw = insufficientData) = (\<not> isFinite (Number S raw)))
   \<and> (S ''8'' = Fin 8 \<longrightarrow>
        interpretAxisScore S ''economic'' (JStr ''8'')
          = interpretAxisScore S ''economic'' (JNum (Fin 8))
        \<and> interpretAxisScore S ''economic'' (JStr ''8'') = bandText ''economic'' StrongPositive
        \<and> interpretAxisScore S ''economic'' (JStr ''8'') \<noteq> insufficientData)"
proof (intro conjI impI)
  show c: "interpretAxisScore S axis raw = interpretAxisScore S axis (JNum (Number S raw))"
    by (rule interpret_coerces)
  show "interpretAxisScore S axis (JStr s) = interpretAxisScore S axis (JNum (S s))"
    using interpret_coerces [of S axis "JStr s"] by simp
  show "(interpretAxisScore S axis raw = insufficientData) = (\<not> isFinite (Number S raw))"
  proof (cases "Number S raw")
    case (Fin x)
    then show ?thesis
      using c interpret_finite_not_insufficient [of S axis x] by simp
  qed (simp_all add: c interpret_not_finite)
next
  assume p: "S ''8'' = Fin 8"
  then show e: "interpretAxisScore S ''economic'' (JStr ''8'')
          = interpretAxisScore S ''economic'' (JNum (Fin 8))"
    using interpret_coerces [of S "''economic''" "JStr ''8''"] by simp
  then show "interpretAxisScore S ''economic'' (JStr ''8'') = bandText ''economic'' StrongPositive"
    by (simp add: interpret_economic band_of_def)
  from e show "interpretAxisScore S ''economic'' (JStr ''8'') \<noteq> insufficientData"
    by (simp add: interpret_finite_not_insufficient)
qed

theorem interpretAxisScore_coerces_with_Number_witness:
  "readDecimalInteger ''8'' = Fin 8
   \<and> interpretAxisScore readDecimalInteger ''economic'' (JStr ''8'')
       = interpretAxisScore readDecimalInteger ''economic'' (JNum (Fin 8))
   \<and> interpretAxisScore readDecimalInteger ''economic'' (JStr ''8'') \<noteq> insufficientData"
proof -
  have p: "readDecimalInteger ''8'' = Fin 8"
    by (simp add: readDecimalInteger_def digitValue_def)
  from interpretAxisScore_coerces_with_Number [of readDecimalInteger _ _ _] p
  show ?thesis by blast
qed

section \<open>Properties of score formatting\<close>

lemma toString_tenths:
  "Number_toString (of_int n / 10) =
     (if n < 0 then ''-'' else '''') @ decimal (nat (\<bar>n\<bar> div 10))
     @ (if \<bar>n\<bar> mod 10 = 0 then '''' else ''.'' @ decimal (nat (\<bar>n\<bar> mod 10)))"
proof -
  have m: "\<bar>(of_int n / 10 :: rat)\<bar> = of_int \<bar>n\<bar> / of_int 10"
    by simp
  have i: "\<lfloor>(of_int \<bar>n\<bar> / of_int 10 :: rat)\<rfloor> = \<bar>n\<bar> div 10"
    by (rule floor_divide_of_int_eq)
  have f: "(of_int \<bar>n\<bar> / of_int 10 :: rat) - of_int (\<bar>n\<bar> div 10) = of_int (\<bar>n\<bar> mod 10) / 10"
  proof -
    have "\<bar>n\<bar> = 10 * (\<bar>n\<bar> div 10) + \<bar>n\<bar> mod 10" by simp
    then have "(of_int \<bar>n\<bar> :: rat) = of_int (10 * (\<bar>n\<bar> div 10) + \<bar>n\<bar> mod 10)"
      by simp
    then have "(of_int \<bar>n\<bar> :: rat) = 10 * of_int (\<bar>n\<bar> div 10) + of_int (\<bar>n\<bar> mod 10)"
      by (simp only: of_int_add of_int_mult of_int_numeral)
    then show ?thesis by (simp add: field_simps)
  qed
  have s: "((of_int n / 10 :: rat) < 0) = (n < 0)"
    by simp
  show ?thesis
    unfolding Number_toString_def Let_def m i f s
    by simp
qed

lemma small_fraction_round:
  assumes "\<bar>remainder1 x\<bar> < literal_0_001"
  shows "nearestTenth x = 10 * Math_round x"
proof -
  have c: "literal_0_001 < 1 / 20"
    by (simp add: literal_0_001_def)
  show ?thesis
  proof (cases "x < 0")
    case True
    define t where "t = \<lceil>x\<rceil>"
    from True assms c have f: "\<bar>x - of_int t\<bar> < 1 / 20"
      by (simp add: remainder1_def t_def)
    have "x \<le> of_int t" unfolding t_def by (rule le_of_int_ceiling)
    with f have lo: "of_int t - 1 / 20 < x" and hi: "x \<le> of_int t" by linarith+
    have r: "\<lfloor>x + 1 / 2\<rfloor> = t"
      by (rule floor_unique) (use lo hi in linarith)+
    have n: "\<lfloor>- x * 10 + 1 / 2\<rfloor> = - (10 * t)"
    proof (rule floor_unique)
      have e: "(of_int (- (10 * t)) :: rat) = - 10 * of_int t" by simp
      show "of_int (- (10 * t)) \<le> - x * 10 + 1 / 2"
        unfolding e using lo hi by linarith
      show "- x * 10 + 1 / 2 < of_int (- (10 * t)) + 1"
        unfolding e using lo hi by linarith
    qed
    from True r n show ?thesis
      by (simp add: nearestTenth_def Math_round_def)
  next
    case False
    define t where "t = \<lfloor>x\<rfloor>"
    from False assms c have f: "\<bar>x - of_int t\<bar> < 1 / 20"
      by (simp add: remainder1_def t_def)
    have "of_int t \<le> x" unfolding t_def by (rule of_int_floor_le)
    with f have lo: "of_int t \<le> x" and hi: "x < of_int t + 1 / 20" by linarith+
    have r: "\<lfloor>x + 1 / 2\<rfloor> = t"
      by (rule floor_unique) (use lo hi in linarith)+
    have n: "\<lfloor>x * 10 + 1 / 2\<rfloor> = 10 * t"
    proof (rule floor_unique)
      have e: "(of_int (10 * t) :: rat) = 10 * of_int t" by simp
      show "of_int (10 * t) \<le> x * 10 + 1 / 2"
        unfolding e using lo hi by linarith
      show "x * 10 + 1 / 2 < of_int (10 * t) + 1"
        unfolding e using lo hi by linarith
    qed
    from False r n show ?thesis
      by (simp add: nearestTenth_def Math_round_def)
  qed
qed

lemma Number_toFixed1_tenths: "Number_toFixed1 x = of_int (nearestTenth x) / 10"
  by (simp add: Number_toFixed1_def nearestTenth_def Let_def abs_if)

lemma rounded_tenths:
  "(if \<bar>remainder1 x\<bar> < literal_0_001 then of_int (Math_round x) else Number_toFixed1 x)
   = (of_int (nearestTenth x) / 10 :: rat)"
  by (simp add: small_fraction_round Number_toFixed1_tenths)

lemma formatAxisValue_tenths:
  "formatAxisValue (JNum (Fin x)) = tenthsText (nearestTenth x)"
proof -
  have p: "((0::rat) < of_int (nearestTenth x) / 10) = (0 < nearestTenth x)"
    by simp
  show ?thesis
    unfolding formatAxisValue_def jsval.case jsnum.case rounded_tenths Let_def p toString_tenths
    by (simp add: tenthsText_def signText_def)
qed

lemma decimal_hd: "decimal n \<noteq> [] \<and> hd (decimal n) \<in> set ''0123456789''"
proof (induction n rule: decimal.induct)
  case (1 n)
  show ?case
  proof (cases "n < 10")
    case True
    then have "n \<in> {0, 1, 2, 3, 4, 5, 6, 7, 8, 9}" by auto
    then show ?thesis
      by (subst (1 2) decimal.simps) (auto simp: digitChar_def)
  next
    case False
    with 1 have ih: "decimal (n div 10) \<noteq> [] \<and> hd (decimal (n div 10)) \<in> set ''0123456789''"
      by simp
    from False have "decimal n = decimal (n div 10) @ [digitChar (n mod 10)]"
      by (subst decimal.simps) simp
    with ih show ?thesis by simp
  qed
qed

lemma near_integer_tenth:
  assumes "\<bar>x - of_int k\<bar> < 1 / 1000"
  shows "nearestTenth x = 10 * k"
proof (cases "x < 0")
  case True
  have "\<lfloor>- x * 10 + 1 / 2\<rfloor> = - (10 * k)"
  proof (rule floor_unique)
    have e: "(of_int (- (10 * k)) :: rat) = - 10 * of_int k" by simp
    show "of_int (- (10 * k)) \<le> - x * 10 + 1 / 2"
      unfolding e using assms by linarith
    show "- x * 10 + 1 / 2 < of_int (- (10 * k)) + 1"
      unfolding e using assms by linarith
  qed
  with True show ?thesis by (simp add: nearestTenth_def)
next
  case False
  have "\<lfloor>x * 10 + 1 / 2\<rfloor> = 10 * k"
  proof (rule floor_unique)
    have e: "(of_int (10 * k) :: rat) = 10 * of_int k" by simp
    show "of_int (10 * k) \<le> x * 10 + 1 / 2"
      unfolding e using assms by linarith
    show "x * 10 + 1 / 2 < of_int (10 * k) + 1"
      unfolding e using assms by linarith
  qed
  with False show ?thesis by (simp add: nearestTenth_def)
qed

lemma tenthsText_whole: "tenthsText (10 * k) = integerText k"
  by (simp add: tenthsText_def integerText_def signText_def abs_mult)

lemma tenthsText_plus: "(hd (tenthsText n) = CHR ''+'') = (0 < n)"
proof -
  from decimal_hd [of "nat (\<bar>n\<bar> div 10)"]
  have "decimal (nat (\<bar>n\<bar> div 10)) \<noteq> []"
    and "hd (decimal (nat (\<bar>n\<bar> div 10))) \<noteq> CHR ''+''"
    by auto
  then show ?thesis
    by (cases "n = 0") (auto simp: tenthsText_def signText_def)
qed

lemma formatAxisValue_not_finite: "\<not> isFinite n \<Longrightarrow> formatAxisValue (JNum n) = ''--''"
  by (cases n) (simp_all add: formatAxisValue_def)

text \<open>
  Claim C3, as the code has it. For a Number that is not finite, and for a value that is
  not a Number, \<open>formatAxisValue\<close> returns \<open>"--"\<close>. For a finite score (of magnitude below
  \<open>10^14\<close>, where the model of the host's number printing is exact) the text is the score
  rounded to the nearest tenth, a tie going away from zero, with a leading \<open>+\<close> exactly
  when that rounded value is positive, and with the fraction digit only when it is not
  zero; so a score within 0.001 of a whole number is printed as that integer.
  The three examples of the specification are \<open>"+5"\<close> for the double nearest to 4.9995,
  \<open>"-3.2"\<close> for the double nearest to -3.2 and \<open>"--"\<close> for \<open>NaN\<close>.
\<close>

theorem formatAxisValue_rounds_to_tenths:
  "(\<not> isFinite n \<longrightarrow> formatAxisValue (JNum n) = ''--'')
   \<and> formatAxisValue (JStr s) = ''--'' \<and> formatAxisValue JNull = ''--''
   \<and> formatAxisValue JUndefined = ''--'' \<and> formatAxisValue (JBool b) = ''--''
   \<and> (\<bar>x\<bar> < 10 ^ 14 \<longrightarrow>
        formatAxisValue (JNum (Fin x)) = tenthsText (nearestTenth x)
      \<and> ((hd (formatAxisValue (JNum (Fin x))) = CHR ''+'') = (0 < nearestTenth x))
      \<and> (\<bar>x - of_int k\<bar> < 1 / 1000 \<longrightarrow> formatAxisValue (JNum (Fin x)) = integerText k))
   \<and> formatAxisValue (JNum (Fin (5628936584259699 / 1125899906842624))) = ''+5''
   \<and> formatAxisValue (JNum (Fin (- 3602879701896397 / 1125899906842624))) = ''-3.2''
   \<and> formatAxisValue (JNum NaN) = ''--''"
proof -
  have a: "\<not> isFinite n \<longrightarrow> formatAxisValue (JNum n) = ''--''"
    by (simp add: formatAxisValue_not_finite)
  have b: "formatAxisValue (JStr s) = ''--''" "formatAxisValue JNull = ''--''"
    "formatAxisValue JUndefined = ''--''" "formatAxisValue (JBool b) = ''--''"
    "formatAxisValue (JNum NaN) = ''--''"
    by (simp_all add: formatAxisValue_def)
  have c: "formatAxisValue (JNum (Fin x)) = tenthsText (nearestTenth x)"
    by (rule formatAxisValue_tenths)
  have d: "(hd (formatAxisValue (JNum (Fin x))) = CHR ''+'') = (0 < nearestTenth x)"
    unfolding c by (rule tenthsText_plus)
  have e: "\<bar>x - of_int k\<bar> < 1 / 1000 \<longrightarrow> formatAxisValue (JNum (Fin x)) = integerText k"
    unfolding c by (simp add: near_integer_tenth tenthsText_whole)
  have f: "formatAxisValue (JNum (Fin (5628936584259699 / 1125899906842624))) = ''+5''"
    by code_simp
  have g: "formatAxisValue (JNum (Fin (- 3602879701896397 / 1125899906842624))) = ''-3.2''"
    by code_simp
  from a b c d e f g show ?thesis
    by simp
qed

theorem formatAxisValue_rounds_to_tenths_witness:
  "\<not> isFinite PosInfinity \<and> formatAxisValue (JNum PosInfinity) = ''--''
   \<and> \<bar>70004 / 10000 :: rat\<bar> < 10 ^ 14 \<and> \<bar>70004 / 10000 - of_int 7 :: rat\<bar> < 1 / 1000
   \<and> formatAxisValue (JNum (Fin (70004 / 10000))) = integerText 7
   \<and> integerText 7 = ''+7''
   \<and> \<bar>- 1234 / 100 :: rat\<bar> < 10 ^ 14
   \<and> formatAxisValue (JNum (Fin (- 1234 / 100))) = tenthsText (nearestTenth (- 1234 / 100))
   \<and> tenthsText (nearestTenth (- 1234 / 100)) = ''-12.3''"
proof -
  have h1: "\<not> isFinite PosInfinity" by simp
  have h2: "\<bar>70004 / 10000 :: rat\<bar> < 10 ^ 14" by simp
  have h3: "\<bar>70004 / 10000 - of_int 7 :: rat\<bar> < 1 / 1000" by simp
  have h4: "\<bar>- 1234 / 100 :: rat\<bar> < 10 ^ 14" by simp
  have v1: "integerText 7 = ''+7''" by code_simp
  have v2: "tenthsText (nearestTenth (- 1234 / 100)) = ''-12.3''" by code_simp
  from formatAxisValue_rounds_to_tenths [of PosInfinity _ _ "70004 / 10000" 7] h1 h2 h3
  have r1: "formatAxisValue (JNum PosInfinity) = ''--''"
    and r2: "formatAxisValue (JNum (Fin (70004 / 10000))) = integerText 7"
    by blast+
  from formatAxisValue_rounds_to_tenths [of PosInfinity _ _ "- 1234 / 100" 0] h4
  have r3: "formatAxisValue (JNum (Fin (- 1234 / 100))) = tenthsText (nearestTenth (- 1234 / 100))"
    by blast
  from h1 h2 h3 h4 v1 v2 r1 r2 r3 show ?thesis
    by (intro conjI)
qed

text \<open>
  The claim as the specification words it fails: a score that is not within 0.001 of a
  whole number is not always printed with one decimal place. The double nearest to 4.96
  lies between 4.001 and 4.999, and its text is \<open>"+5"\<close>, without a fraction digit.
\<close>

theorem formatAxisValue_one_decimal_counterexample:
  "4 + 1 / 1000 \<le> (5584463537939415 / 1125899906842624 :: rat)
   \<and> (5584463537939415 / 1125899906842624 :: rat) \<le> 5 - 1 / 1000
   \<and> formatAxisValue (JNum (Fin (5584463537939415 / 1125899906842624))) = ''+5''
   \<and> CHR ''.'' \<notin> set (formatAxisValue (JNum (Fin (5584463537939415 / 1125899906842624))))"
proof -
  have v: "formatAxisValue (JNum (Fin (5584463537939415 / 1125899906842624))) = ''+5''"
    by code_simp
  show ?thesis
    unfolding v by simp
qed

section \<open>Properties of page building\<close>

lemma firstSeen_snoc:
  "firstSeen (xs @ [x]) = (if x \<in> set xs then firstSeen xs else firstSeen xs @ [x])"
  by (simp add: firstSeen_def)

lemma set_firstSeen [simp]: "set (firstSeen xs) = set xs"
  by (simp add: firstSeen_def)

lemma distinct_firstSeen [simp]: "distinct (firstSeen xs)"
  by (simp add: firstSeen_def)

lemma firstSeen_Nil [simp]: "firstSeen [] = []"
  by (simp add: firstSeen_def)

lemma map_of_tabulate:
  "map_of (map (\<lambda>a. (a, f a)) ks) a = (if a \<in> set ks then Some (f a) else None)"
  by (induction ks) auto

lemma update_tabulate_absent:
  "k \<notin> set ks \<Longrightarrow> AList.update k v (map (\<lambda>a. (a, f a)) ks) = map (\<lambda>a. (a, f a)) ks @ [(k, v)]"
  by (induction ks) auto

lemma update_tabulate_present:
  "k \<in> set ks \<Longrightarrow> distinct ks \<Longrightarrow>
     AList.update k v (map (\<lambda>a. (a, f a)) ks) = map (\<lambda>a. (a, if a = k then v else f a)) ks"
  by (induction ks) (auto simp: update_tabulate_absent)

lemma grouped_snoc_present:
  assumes "axisKey q \<in> axisKey ` set done"
  shows "AList.update (axisKey q) (filter (\<lambda>p. axisKey p = axisKey q) done @ [q]) (grouped done)
         = grouped (done @ [q])"
proof -
  from assms have k: "axisKey q \<in> set (firstSeen (map axisKey done))" by simp
  from assms have fs: "firstSeen (map axisKey (done @ [q])) = firstSeen (map axisKey done)"
    by (simp add: firstSeen_snoc)
  show ?thesis
    unfolding grouped_def fs update_tabulate_present [OF k distinct_firstSeen]
    by (rule map_cong) auto
qed

lemma grouped_snoc_absent:
  assumes "axisKey q \<notin> axisKey ` set done"
  shows "AList.update (axisKey q) ([] @ [q]) (grouped done) = grouped (done @ [q])"
proof -
  from assms have k: "axisKey q \<notin> set (firstSeen (map axisKey done))" by simp
  from assms have fs: "firstSeen (map axisKey (done @ [q])) = firstSeen (map axisKey done) @ [axisKey q]"
    by (simp add: firstSeen_snoc)
  have z: "filter (\<lambda>p. axisKey p = axisKey q) done = []"
    using assms by (simp add: filter_empty_conv image_iff) metis
  have m: "map (\<lambda>a. (a, filter (\<lambda>p. axisKey p = a) done)) (firstSeen (map axisKey done))
         = map (\<lambda>a. (a, filter (\<lambda>p. axisKey p = a) (done @ [q]))) (firstSeen (map axisKey done))"
    using k by (intro map_cong) auto
  show ?thesis
    unfolding grouped_def fs update_tabulate_absent [OF k]
    using m z by simp
qed

lemma groupByAxis_grouped:
  "noInheritedAxis qs \<Longrightarrow> groupByAxis qs (grouped done) = Inr (grouped (done @ qs))"
proof (induction qs arbitrary: "done")
  case Nil
  then show ?case by simp
next
  case (Cons q qs)
  from Cons.prems have ni: "axisKey q \<notin> set ObjectPrototypeKeys" and rest: "noInheritedAxis qs"
    by (simp_all add: noInheritedAxis_def)
  have ih: "groupByAxis qs (grouped (done @ [q])) = Inr (grouped ((done @ [q]) @ qs))"
    using rest by (rule Cons.IH)
  show ?case
  proof (cases "axisKey q \<in> axisKey ` set done")
    case True
    then have l: "map_of (grouped done) (axisKey q) = Some (filter (\<lambda>p. axisKey p = axisKey q) done)"
      by (simp add: grouped_def map_of_tabulate)
    show ?thesis
      using ih by (simp add: l grouped_snoc_present [OF True])
  next
    case False
    then have l: "map_of (grouped done) (axisKey q) = None"
      by (simp add: grouped_def map_of_tabulate)
    show ?thesis
      using ih ni grouped_snoc_absent [OF False] by (simp add: l)
  qed
qed

lemma grouped_Nil: "grouped [] = []"
  by (simp add: grouped_def)

lemma groupByAxis_result: "noInheritedAxis qs \<Longrightarrow> groupByAxis qs [] = Inr (grouped qs)"
  using groupByAxis_grouped [of qs "[]"] by (simp add: grouped_Nil)

lemma delete_tabulate:
  "AList.delete k (map (\<lambda>a. (a, f a)) ks) = map (\<lambda>a. (a, f a)) (filter (\<lambda>a. a \<noteq> k) ks)"
  by (induction ks) auto

lemma knownAxisPages_tabulate:
  "distinct axes \<Longrightarrow>
   knownAxisPages axes pgs (map (\<lambda>a. (a, f a)) ks)
   = (pgs @ map (\<lambda>a. \<lparr>p_axis = a, p_questions = f a\<rparr>) (filter (\<lambda>a. a \<in> set ks) axes),
      map (\<lambda>a. (a, f a)) (filter (\<lambda>a. a \<notin> set axes) ks))"
proof (induction axes arbitrary: pgs ks)
  case Nil
  then show ?case by simp
next
  case (Cons x axes)
  from Cons.prems have d: "distinct axes" and nx: "x \<notin> set axes" by simp_all
  have f1: "filter (\<lambda>a. a \<in> set ks \<and> a \<noteq> x) axes = filter (\<lambda>a. a \<in> set ks) axes"
    using nx by (intro filter_cong) auto
  have f2: "filter (\<lambda>a. a \<notin> set axes) (filter (\<lambda>a. a \<noteq> x) ks) = filter (\<lambda>a. a \<notin> set (x # axes)) ks"
    by (induction ks) auto
  show ?case
  proof (cases "x \<in> set ks")
    case True
    then show ?thesis
      by (simp add: map_of_tabulate delete_tabulate Cons.IH [OF d] f1 f2)
  next
    case False
    then have "filter (\<lambda>a. a \<notin> set axes) ks = filter (\<lambda>a. a \<notin> set (x # axes)) ks"
      by (intro filter_cong) auto
    with False show ?thesis
      by (simp add: map_of_tabulate Cons.IH [OF d])
  qed
qed

lemma Object_keys_tabulate:
  "Object_keys (map (\<lambda>a. (a, f a)) ks)
   = sort_key arrayIndexValue (filter isArrayIndex ks) @ filter (\<lambda>k. \<not> isArrayIndex k) ks"
  by (simp add: Object_keys_def comp_def)

lemma remainingAxisPages_tabulate:
  "remainingAxisPages (map (\<lambda>a. (a, f a)) ks)
   = map (\<lambda>a. \<lparr>p_axis = a, p_questions = f a\<rparr>)
       (sort_key arrayIndexValue (filter isArrayIndex ks) @ filter (\<lambda>k. \<not> isArrayIndex k) ks)"
  unfolding remainingAxisPages_def Object_keys_tabulate
  by (rule map_cong) (auto simp: map_of_tabulate)

lemma distinct_axisOrder: "distinct axisOrder"
  by (simp add: axisOrder_def)

lemma buildPagesByAxis_pages:
  assumes "noInheritedAxis (questions s)"
  shows "buildPagesByAxis s
         = Inr (s\<lparr>pages := map (pageFor (questions s)) (builtAxisOrder (questions s)),
                  currentPageIndex := 0\<rparr>)"
proof -
  let ?qs = "questions s"
  let ?f = "\<lambda>a. filter (\<lambda>q. axisKey q = a) ?qs"
  have g: "groupByAxis ?qs [] = Inr (map (\<lambda>a. (a, ?f a)) (firstSeen (map axisKey ?qs)))"
    using groupByAxis_result [OF assms] by (simp add: grouped_def)
  have p: "(\<lambda>a. \<lparr>p_axis = a, p_questions = ?f a\<rparr>) = pageFor ?qs"
    by (simp add: pageFor_def fun_eq_iff)
  show ?thesis
    unfolding buildPagesByAxis_def g
    by (simp add: knownAxisPages_tabulate [OF distinct_axisOrder] remainingAxisPages_tabulate
        p builtAxisOrder_def Let_def)
qed

lemma set_builtAxisOrder: "set (builtAxisOrder qs) = axisKey ` set qs"
  by (auto simp: builtAxisOrder_def Let_def)

lemma distinct_builtAxisOrder: "distinct (builtAxisOrder qs)"
  by (auto simp: builtAxisOrder_def Let_def distinct_axisOrder)

lemma mset_filter_insert_key:
  "a \<notin> A \<Longrightarrow>
     mset (filter (\<lambda>q. key q = a) qs) + mset (filter (\<lambda>q. key q \<in> A) qs)
     = mset (filter (\<lambda>q. key q \<in> insert a A) qs)"
  by (induction qs) auto

lemma mset_concat_filter_keys:
  "distinct ks \<Longrightarrow>
     mset (concat (map (\<lambda>a. filter (\<lambda>q. key q = a) qs) ks))
     = mset (filter (\<lambda>q. key q \<in> set ks) qs)"
proof (induction ks)
  case Nil
  then show ?case by simp
next
  case (Cons a ks)
  then have n: "a \<notin> set ks" and d: "distinct ks" by simp_all
  have "mset (concat (map (\<lambda>a. filter (\<lambda>q. key q = a) qs) (a # ks)))
        = mset (filter (\<lambda>q. key q = a) qs) + mset (concat (map (\<lambda>a. filter (\<lambda>q. key q = a) qs) ks))"
    by simp
  also have "\<dots> = mset (filter (\<lambda>q. key q = a) qs) + mset (filter (\<lambda>q. key q \<in> set ks) qs)"
    by (simp only: Cons.IH [OF d])
  also have "\<dots> = mset (filter (\<lambda>q. key q \<in> insert a (set ks)) qs)"
    using n by (rule mset_filter_insert_key)
  finally show ?case by (simp only: list.set)
qed

lemma pages_partition:
  "mset (concat (map p_questions (map (pageFor qs) (builtAxisOrder qs)))) = mset qs"
proof -
  have "map p_questions (map (pageFor qs) (builtAxisOrder qs))
        = map (\<lambda>a. filter (\<lambda>q. axisKey q = a) qs) (builtAxisOrder qs)"
    by (induction "builtAxisOrder qs") (simp_all add: pageFor_def)
  moreover have "filter (\<lambda>q. axisKey q \<in> set (builtAxisOrder qs)) qs = qs"
    by (simp add: set_builtAxisOrder)
  ultimately show ?thesis
    using mset_concat_filter_keys [OF distinct_builtAxisOrder, of axisKey qs qs]
    by (simp only:)
qed

lemma builtAxisOrder_no_index:
  assumes "list_all (\<lambda>q. \<not> isArrayIndex (axisKey q)) qs"
  shows "builtAxisOrder qs = claimedAxisOrder qs"
proof -
  let ?rest = "filter (\<lambda>a. a \<notin> set axisOrder) (firstSeen (map axisKey qs))"
  from assms have n: "\<forall>a \<in> set ?rest. \<not> isArrayIndex a"
    by (auto simp: list_all_iff)
  then have i: "filter isArrayIndex ?rest = []"
    by (simp only: filter_empty_conv)
  from n have r: "filter (\<lambda>a. \<not> isArrayIndex a) ?rest = ?rest"
    by (simp only: filter_id_conv)
  show ?thesis
    unfolding builtAxisOrder_def claimedAxisOrder_def Let_def i r by simp
qed

lemma pages_cover:
  assumes "q \<in> set qs"
  shows "pageFor qs (axisKey q) \<in> set (map (pageFor qs) (builtAxisOrder qs))
         \<and> q \<in> set (p_questions (pageFor qs (axisKey q)))"
  using assms by (simp add: set_builtAxisOrder pageFor_def)

lemma pages_own_axis:
  assumes "p \<in> set (map (pageFor qs) (builtAxisOrder qs))" and "q \<in> set (p_questions p)"
  shows "p_axis p = axisKey q"
  using assms by (auto simp: pageFor_def)

text \<open>
  Claim C1, as the code has it. For every list of questions none of whose axis keys is
  the name of a property inherited from \<open>Object.prototype\<close>, \<open>buildPagesByAxis\<close> succeeds,
  resets the page index, and builds one page for each axis key present, holding the
  questions of that key in input order; the pages are a partition of the input (no
  question duplicated or dropped). The pages come in the canonical order of the axes
  present, then the remaining axes whose names are array indices in ascending numeric
  order, then the other remaining axes in order of first appearance. When no axis key is
  an array index this is the order the specification states.
\<close>

theorem buildPagesByAxis_partition_in_key_order:
  "noInheritedAxis (questions s) \<longrightarrow>
     buildPagesByAxis s
       = Inr (s\<lparr>pages := map (pageFor (questions s)) (builtAxisOrder (questions s)),
                currentPageIndex := 0\<rparr>)
     \<and> mset (concat (map p_questions (map (pageFor (questions s)) (builtAxisOrder (questions s)))))
         = mset (questions s)
     \<and> distinct (builtAxisOrder (questions s))
     \<and> set (builtAxisOrder (questions s)) = axisKey ` set (questions s)
     \<and> (list_all (\<lambda>q. \<not> isArrayIndex (axisKey q)) (questions s) \<longrightarrow>
          builtAxisOrder (questions s) = claimedAxisOrder (questions s))"
  by (simp add: buildPagesByAxis_pages pages_partition distinct_builtAxisOrder
      set_builtAxisOrder builtAxisOrder_no_index del: map_map)

theorem buildPagesByAxis_partition_in_key_order_witness:
  "noInheritedAxis
     [mkQuestion ''q1'' (Some ''social''), mkQuestion ''q2'' (Some ''zeta''),
      mkQuestion ''q3'' None, mkQuestion ''q4'' (Some ''economic''),
      mkQuestion ''q5'' (Some ''zeta''), mkQuestion ''q6'' (Some ''social'')]
   \<and> buildPagesByAxis (initialState\<lparr>questions :=
        [mkQuestion ''q1'' (Some ''social''), mkQuestion ''q2'' (Some ''zeta''),
         mkQuestion ''q3'' None, mkQuestion ''q4'' (Some ''economic''),
         mkQuestion ''q5'' (Some ''zeta''), mkQuestion ''q6'' (Some ''social'')]\<rparr>)
      = Inr (initialState\<lparr>questions :=
        [mkQuestion ''q1'' (Some ''social''), mkQuestion ''q2'' (Some ''zeta''),
         mkQuestion ''q3'' None, mkQuestion ''q4'' (Some ''economic''),
         mkQuestion ''q5'' (Some ''zeta''), mkQuestion ''q6'' (Some ''social'')],
        pages :=
        [\<lparr>p_axis = ''economic'', p_questions = [mkQuestion ''q4'' (Some ''economic'')]\<rparr>,
         \<lparr>p_axis = ''social'',
          p_questions = [mkQuestion ''q1'' (Some ''social''), mkQuestion ''q6'' (Some ''social'')]\<rparr>,
         \<lparr>p_axis = ''zeta'',
          p_questions = [mkQuestion ''q2'' (Some ''zeta''), mkQuestion ''q5'' (Some ''zeta'')]\<rparr>,
         \<lparr>p_axis = ''other'', p_questions = [mkQuestion ''q3'' None]\<rparr>],
        currentPageIndex := 0\<rparr>)"
proof -
  let ?qs = "[mkQuestion ''q1'' (Some ''social''), mkQuestion ''q2'' (Some ''zeta''),
      mkQuestion ''q3'' None, mkQuestion ''q4'' (Some ''economic''),
      mkQuestion ''q5'' (Some ''zeta''), mkQuestion ''q6'' (Some ''social'')]"
  have h: "noInheritedAxis ?qs"
    by (simp add: noInheritedAxis_def axisKey_def mkQuestion_def ObjectPrototypeKeys_def)
  have o: "builtAxisOrder ?qs = [''economic'', ''social'', ''zeta'', ''other'']"
    by (simp add: builtAxisOrder_def firstSeen_def axisKey_def mkQuestion_def axisOrder_def
        isArrayIndex_def digitValue_def Let_def)
  have p: "map (pageFor ?qs) [''economic'', ''social'', ''zeta'', ''other'']
     = [\<lparr>p_axis = ''economic'', p_questions = [mkQuestion ''q4'' (Some ''economic'')]\<rparr>,
         \<lparr>p_axis = ''social'',
          p_questions = [mkQuestion ''q1'' (Some ''social''), mkQuestion ''q6'' (Some ''social'')]\<rparr>,
         \<lparr>p_axis = ''zeta'',
          p_questions = [mkQuestion ''q2'' (Some ''zeta''), mkQuestion ''q5'' (Some ''zeta'')]\<rparr>,
         \<lparr>p_axis = ''other'', p_questions = [mkQuestion ''q3'' None]\<rparr>]"
    by (simp add: pageFor_def axisKey_def mkQuestion_def)
  from buildPagesByAxis_partition_in_key_order [of "initialState\<lparr>questions := ?qs\<rparr>"] h
  have "buildPagesByAxis (initialState\<lparr>questions := ?qs\<rparr>)
       = Inr (initialState\<lparr>questions := ?qs,
                pages := map (pageFor ?qs) (builtAxisOrder ?qs), currentPageIndex := 0\<rparr>)"
    by simp
  then show ?thesis
    unfolding o p using h by simp
qed

text \<open>
  The order the specification states fails when a remaining axis is named like an array
  index: with the axes economic, 2, 1 in input order, the page for axis 1 comes before the
  page for axis 2, while the order of first appearance is 2, 1.
\<close>

theorem buildPagesByAxis_first_seen_counterexample:
  "builtAxes [mkQuestion ''q1'' (Some ''economic''), mkQuestion ''q2'' (Some ''2''),
              mkQuestion ''q3'' (Some ''1'')]
     = Inr [''economic'', ''1'', ''2'']
   \<and> claimedAxisOrder [mkQuestion ''q1'' (Some ''economic''), mkQuestion ''q2'' (Some ''2''),
              mkQuestion ''q3'' (Some ''1'')]
     = [''economic'', ''2'', ''1'']"
  by (simp add: builtAxes_def buildPagesByAxis_def initialState_def axisKey_def mkQuestion_def
      ObjectPrototypeKeys_def axisOrder_def remainingAxisPages_def Object_keys_def
      isArrayIndex_def arrayIndexValue_def digitValue_def Let_def claimedAxisOrder_def
      firstSeen_def)

text \<open>
  An axis key that names an inherited property stops page building with a \<open>TypeError\<close>:
  no page is built for any question of the set.
\<close>

lemma buildPagesByAxis_inherited_key:
  "builtAxes [mkQuestion ''q1'' (Some ''economic''), mkQuestion ''q2'' (Some ''constructor'')]
     = Inl TypeError"
  by (simp add: builtAxes_def buildPagesByAxis_def initialState_def axisKey_def mkQuestion_def
      ObjectPrototypeKeys_def Let_def)

text \<open>
  Claim C8, as the code has it. The grouping key of a question is \<open>"other"\<close> when its axis
  is missing or empty, and is the axis identifier itself otherwise, whether the catalog
  knows it or not. Page building (when no axis key names an inherited property) puts every
  question on a page of its grouping key, and on no page of another axis.
\<close>

theorem axis_falls_back_to_other_only_when_missing:
  "(q_axis q = None \<or> q_axis q = Some [] \<longrightarrow> axisKey q = ''other'')
   \<and> (q_axis q = Some a \<and> a \<noteq> [] \<longrightarrow> axisKey q = a)
   \<and> (noInheritedAxis (questions s) \<and> q \<in> set (questions s) \<longrightarrow>
        (\<exists>s'. buildPagesByAxis s = Inr s'
           \<and> (\<exists>p \<in> set (pages s'). p_axis p = axisKey q \<and> q \<in> set (p_questions p))
           \<and> (\<forall>p \<in> set (pages s'). q \<in> set (p_questions p) \<longrightarrow> p_axis p = axisKey q)))"
proof (intro conjI impI)
  assume "q_axis q = None \<or> q_axis q = Some []"
  then show "axisKey q = ''other''"
    by (auto simp: axisKey_def)
next
  assume "q_axis q = Some a \<and> a \<noteq> []"
  then show "axisKey q = a"
    by (simp add: axisKey_def)
next
  assume a: "noInheritedAxis (questions s) \<and> q \<in> set (questions s)"
  define qs where "qs = questions s"
  define pgs where "pgs = map (pageFor qs) (builtAxisOrder qs)"
  define s' where "s' = s\<lparr>pages := pgs, currentPageIndex := 0\<rparr>"
  have pg: "pages s' = pgs"
    by (simp add: s'_def)
  from a have b: "buildPagesByAxis s = Inr s'"
    unfolding s'_def pgs_def qs_def by (simp only: buildPagesByAxis_pages)
  from a have qin: "q \<in> set qs"
    by (simp add: qs_def)
  from pages_cover [OF qin] have c: "pageFor qs (axisKey q) \<in> set pgs"
    and d: "q \<in> set (p_questions (pageFor qs (axisKey q)))"
    unfolding pgs_def by blast+
  have e: "p_axis (pageFor qs (axisKey q)) = axisKey q"
    by (simp add: pageFor_def)
  have f: "\<forall>p \<in> set pgs. q \<in> set (p_questions p) \<longrightarrow> p_axis p = axisKey q"
    unfolding pgs_def using pages_own_axis [of _ qs q] by blast
  from c d e have g: "\<exists>p \<in> set pgs. p_axis p = axisKey q \<and> q \<in> set (p_questions p)"
    by blast
  show "\<exists>s'. buildPagesByAxis s = Inr s'
           \<and> (\<exists>p \<in> set (pages s'). p_axis p = axisKey q \<and> q \<in> set (p_questions p))
           \<and> (\<forall>p \<in> set (pages s'). q \<in> set (p_questions p) \<longrightarrow> p_axis p = axisKey q)"
  proof (intro exI conjI)
    show "buildPagesByAxis s = Inr s'" by (rule b)
    show "\<exists>p \<in> set (pages s'). p_axis p = axisKey q \<and> q \<in> set (p_questions p)"
      unfolding pg by (rule g)
    show "\<forall>p \<in> set (pages s'). q \<in> set (p_questions p) \<longrightarrow> p_axis p = axisKey q"
      unfolding pg by (rule f)
  qed
qed

theorem axis_falls_back_to_other_only_when_missing_witness:
  "q_axis (mkQuestion ''q2'' (Some ''astrology'')) = Some ''astrology'' \<and> ''astrology'' \<noteq> []
   \<and> axisKey (mkQuestion ''q2'' (Some ''astrology'')) = ''astrology''
   \<and> (q_axis (mkQuestion ''q1'' None) = None \<or> q_axis (mkQuestion ''q1'' None) = Some [])
   \<and> axisKey (mkQuestion ''q1'' None) = ''other''
   \<and> noInheritedAxis [mkQuestion ''q1'' None, mkQuestion ''q2'' (Some ''astrology'')]
   \<and> mkQuestion ''q2'' (Some ''astrology'')
       \<in> set [mkQuestion ''q1'' None, mkQuestion ''q2'' (Some ''astrology'')]
   \<and> (\<exists>s'. buildPagesByAxis
        (initialState\<lparr>questions := [mkQuestion ''q1'' None, mkQuestion ''q2'' (Some ''astrology'')]\<rparr>)
          = Inr s'
        \<and> (\<exists>p. p \<in> set (pages s') \<and> p_axis p = ''astrology''
              \<and> mkQuestion ''q2'' (Some ''astrology'') \<in> set (p_questions p)))"
proof -
  let ?q1 = "mkQuestion ''q1'' None" and ?q2 = "mkQuestion ''q2'' (Some ''astrology'')"
  have h1: "q_axis ?q2 = Some ''astrology'' \<and> ''astrology'' \<noteq> []"
    by (simp add: mkQuestion_def)
  have h2: "q_axis ?q1 = None \<or> q_axis ?q1 = Some []"
    by (simp add: mkQuestion_def)
  have h3: "noInheritedAxis [?q1, ?q2]"
    by (simp add: noInheritedAxis_def axisKey_def mkQuestion_def ObjectPrototypeKeys_def)
  have h4: "?q2 \<in> set [?q1, ?q2]" by simp
  note t2 = axis_falls_back_to_other_only_when_missing
    [of ?q2 "''astrology''" "initialState\<lparr>questions := [?q1, ?q2]\<rparr>"]
  note t1 = axis_falls_back_to_other_only_when_missing [of ?q1 "''x''" initialState]
  from t2 h1 have k2: "axisKey ?q2 = ''astrology''" by blast
  from t1 h2 have k1: "axisKey ?q1 = ''other''" by blast
  from t2 h3 h4 have "\<exists>s'. buildPagesByAxis (initialState\<lparr>questions := [?q1, ?q2]\<rparr>) = Inr s'
        \<and> (\<exists>p \<in> set (pages s'). p_axis p = axisKey ?q2 \<and> ?q2 \<in> set (p_questions p))"
    by simp blast
  then have e: "\<exists>s'. buildPagesByAxis (initialState\<lparr>questions := [?q1, ?q2]\<rparr>) = Inr s'
        \<and> (\<exists>p. p \<in> set (pages s') \<and> p_axis p = ''astrology'' \<and> ?q2 \<in> set (p_questions p))"
    unfolding k2 by blast
  from h1 k2 h2 k1 h3 h4 e show ?thesis
    by blast
qed

text \<open>
  The claim as the specification words it fails: an axis the catalog does not know is
  not replaced by \<open>"other"\<close>. A question of axis \<open>"ecology"\<close> is grouped under \<open>"ecology"\<close>.
\<close>

theorem unknown_axis_grouped_as_other_counterexample:
  "''ecology'' \<notin> set axisOrder
   \<and> axisKey (mkQuestion ''q1'' (Some ''ecology'')) = ''ecology''
   \<and> builtAxes [mkQuestion ''q1'' (Some ''ecology'')] = Inr [''ecology'']"
  by (simp add: builtAxes_def buildPagesByAxis_def initialState_def axisKey_def mkQuestion_def
      ObjectPrototypeKeys_def axisOrder_def remainingAxisPages_def Object_keys_def
      isArrayIndex_def digitValue_def Let_def)

section \<open>Properties of navigation and submission\<close>

lemma answers_renderPage [simp]: "answers (renderPage s) = answers s"
  by (simp add: renderPage_def)

lemma answers_handleResult:
  "answers (handleResult data s) = (case d_answers data of Some a \<Rightarrow> a | None \<Rightarrow> answers s)"
  by (simp add: handleResult_def Let_def split: option.split)

lemma answers_submitAnswers [simp]: "answers (submitAnswers scoring saving s) = answers s"
  by (simp add: submitAnswers_def Let_def answers_handleResult split: response.split)

lemma answers_prevClick [simp]: "answers (prevClick s) = answers s"
  by (simp add: prevClick_def)

lemma answers_nextClick [simp]: "answers (nextClick scoring saving s) = answers s"
  by (simp add: nextClick_def)

lemma answers_navigation: "isNavigation e \<Longrightarrow> answers (step e s) = answers s"
  by (cases e) simp_all

lemma answers_run_navigation:
  "list_all isNavigation nav \<Longrightarrow> answers (run nav s) = answers s"
  by (induction nav arbitrary: s) (simp_all add: answers_navigation)

lemma run_append: "run (es @ fs) s = run fs (run es s)"
  by (induction es arbitrary: s) simp_all

lemma prevClick_frame:
  "\<exists>i m. prevClick s = s\<lparr>currentPageIndex := i, quizMessage := m\<rparr>"
proof (cases "0 < currentPageIndex s \<and> pages s \<noteq> []")
  case True
  then have "prevClick s = s\<lparr>currentPageIndex := currentPageIndex s - 1, quizMessage := None\<rparr>"
    by (simp add: prevClick_def renderPage_def)
  then show ?thesis by blast
next
  case False
  then have "prevClick s = s\<lparr>currentPageIndex := currentPageIndex (prevClick s),
                               quizMessage := quizMessage s\<rparr>"
    by (auto simp: prevClick_def renderPage_def)
  then show ?thesis by blast
qed

lemma nextClick_frame:
  assumes "currentPageIndex s + 1 < length (pages s)"
  shows "nextClick scoring saving s
         = s\<lparr>currentPageIndex := currentPageIndex s + 1, quizMessage := None\<rparr>"
proof -
  from assms have "pages s \<noteq> []" by auto
  with assms show ?thesis
    by (simp add: nextClick_def renderPage_def)
qed

lemma submit_persistence_failed:
  "submitAnswers (Delivered data) Failed s
   = handleResult (data\<lparr>d_result_id := None, d_answers := Some (answers s)\<rparr>)
       (s\<lparr>quizMessage := None,
          requests := requests s @
            [PostSubmit (answers s),
             PostSaveResult (answers s) (orEmpty (d_axes data))
               (profileField ''key'' (d_profile data)) (profileField ''label'' (d_profile data))],
          resultKeyMessage := Some (msgKeyNotGenerated, True)\<rparr>)"
  by (simp add: submitAnswers_def Let_def)

lemma handleResult_fields:
  "latestResult (handleResult data s)
     = Some \<lparr>l_axes = orEmpty (d_axes data), l_profile = orEmpty (d_profile data),
             l_answers = (case d_answers data of Some a \<Rightarrow> a | None \<Rightarrow> answers s)\<rparr>"
  "latestResultId (handleResult data s) = orElse (orElse (d_result_id data) (d_id data)) None"
  "resultKeyShown (handleResult data s) = orElse (orElse (d_result_id data) (d_id data)) None"
  "resultVisible (handleResult data s) = True"
  "quizMessage (handleResult data s) = quizMessage s"
  "requests (handleResult data s) = requests s"
  "resultKeyMessage (handleResult data s)
     = (if orElse (orElse (d_result_id data) (d_id data)) None \<noteq> None
        then Some (msgKeepKey, False) else resultKeyMessage s)"
  by (auto simp: handleResult_def Let_def split: option.split)

lemma orElse_None [simp]: "orElse None y = y" "orElse x None = (if x = Some [] then None else x)"
  by (auto simp: orElse_def split: option.split)

text \<open>
  Claim C5. When the scoring call succeeds and the save call fails, \<open>submitAnswers\<close> still
  hands the scored result to \<open>handleResult\<close>: the latest result holds the axes and the
  profile of the reply with the local answers, the result section is shown, the answers
  are unchanged, and the submission does not fail (no quiz error message). The failure
  shows only as the warning in the result-key message area, and the stored result key is
  absent. The reply of \<open>POST /api/submit\<close> is \<open>{axes, profile}\<close>; it has no \<open>id\<close> field, which
  is the hypothesis of the last conjunct.
\<close>

theorem persistence_failure_is_not_fatal:
  "submitAnswers (Delivered data) Failed s
     = handleResult (data\<lparr>d_result_id := None, d_answers := Some (answers s)\<rparr>)
         (s\<lparr>quizMessage := None,
            requests := requests s @
              [PostSubmit (answers s),
               PostSaveResult (answers s) (orEmpty (d_axes data))
                 (profileField ''key'' (d_profile data))
                 (profileField ''label'' (d_profile data))],
            resultKeyMessage := Some (msgKeyNotGenerated, True)\<rparr>)
   \<and> latestResult (submitAnswers (Delivered data) Failed s)
       = Some \<lparr>l_axes = orEmpty (d_axes data), l_profile = orEmpty (d_profile data),
               l_answers = answers s\<rparr>
   \<and> resultVisible (submitAnswers (Delivered data) Failed s)
   \<and> quizMessage (submitAnswers (Delivered data) Failed s) = None
   \<and> answers (submitAnswers (Delivered data) Failed s) = answers s
   \<and> (d_id data = None \<or> d_id data = Some [] \<longrightarrow>
        latestResultId (submitAnswers (Delivered data) Failed s) = None
        \<and> resultKeyShown (submitAnswers (Delivered data) Failed s) = None
        \<and> resultKeyMessage (submitAnswers (Delivered data) Failed s)
            = Some (msgKeyNotGenerated, True))"
proof -
  note e = submit_persistence_failed [of data s]
  show ?thesis
    unfolding e by (auto simp: handleResult_fields answers_handleResult)
qed

theorem persistence_failure_is_not_fatal_witness:
  "(d_id \<lparr>d_axes = Some [(''economic'', JNum (Fin 10)), (''social'', JNum (Fin (- 2)))],
           d_profile = Some [(''key'', ''p1''), (''label'', ''Liberal'')],
           d_result_id = None, d_id = None, d_answers = None\<rparr> = None
    \<or> d_id \<lparr>d_axes = Some [(''economic'', JNum (Fin 10)), (''social'', JNum (Fin (- 2)))],
           d_profile = Some [(''key'', ''p1''), (''label'', ''Liberal'')],
           d_result_id = None, d_id = None, d_answers = None\<rparr> = Some [])
   \<and> latestResultId (submitAnswers
        (Delivered \<lparr>d_axes = Some [(''economic'', JNum (Fin 10)), (''social'', JNum (Fin (- 2)))],
           d_profile = Some [(''key'', ''p1''), (''label'', ''Liberal'')],
           d_result_id = None, d_id = None, d_answers = None\<rparr>) Failed
        (initialState\<lparr>answers := [''q1'' \<mapsto> 2, ''q2'' \<mapsto> - 1]\<rparr>)) = None
   \<and> resultKeyMessage (submitAnswers
        (Delivered \<lparr>d_axes = Some [(''economic'', JNum (Fin 10)), (''social'', JNum (Fin (- 2)))],
           d_profile = Some [(''key'', ''p1''), (''label'', ''Liberal'')],
           d_result_id = None, d_id = None, d_answers = None\<rparr>) Failed
        (initialState\<lparr>answers := [''q1'' \<mapsto> 2, ''q2'' \<mapsto> - 1]\<rparr>))
       = Some (msgKeyNotGenerated, True)"
proof -
  let ?d = "\<lparr>d_axes = Some [(''economic'', JNum (Fin 10)), (''social'', JNum (Fin (- 2)))],
           d_profile = Some [(''key'', ''p1''), (''label'', ''Liberal'')],
           d_result_id = None, d_id = None, d_answers = None\<rparr>"
  have h: "d_id ?d = None \<or> d_id ?d = Some []" by simp
  from persistence_failure_is_not_fatal
    [of ?d "initialState\<lparr>answers := [''q1'' \<mapsto> 2, ''q2'' \<mapsto> - 1]\<rparr>"] h
  show ?thesis by blast
qed

text \<open>
  \<open>handleResult\<close> reads \<open>data.result_id || data.id\<close>, for the reply of
  \<open>GET /api/result/{id}\<close> as for the scored result. A scoring reply with an \<open>id\<close> field is
  outside the documented reply of \<open>POST /api/submit\<close>; on such a reply the fallback takes that
  \<open>id\<close> for the result key after a failed save.
\<close>

lemma handleResult_reads_reply_id:
  "latestResultId (submitAnswers
        (Delivered \<lparr>d_axes = Some [(''economic'', JNum (Fin 10)), (''social'', JNum (Fin (- 2)))],
           d_profile = None, d_result_id = None, d_id = Some ''R-17'', d_answers = None\<rparr>)
        Failed initialState) = Some ''R-17''
   \<and> resultKeyMessage (submitAnswers
        (Delivered \<lparr>d_axes = Some [(''economic'', JNum (Fin 10)), (''social'', JNum (Fin (- 2)))],
           d_profile = None, d_result_id = None, d_id = Some ''R-17'', d_answers = None\<rparr>)
        Failed initialState) = Some (msgKeepKey, False)"
  by (simp add: submit_persistence_failed handleResult_fields orElse_def)

section \<open>Properties of retrieval\<close>

lemma retrieve_invalid:
  assumes "\<not> RESULT_ID_REGEX_test (normalizeResultId v)"
  shows "handleRetrieveSubmit v server s
         = s\<lparr>retrieveMessage :=
               Some (if normalizeResultId v = [] then msgEnterKey else msgInvalidFormat, True)\<rparr>"
  using assms by (simp add: handleRetrieveSubmit_def Let_def)

lemma regex_not_empty: "\<not> RESULT_ID_REGEX_test []"
  by (simp add: RESULT_ID_REGEX_test_def)

lemma retrieve_valid:
  assumes "RESULT_ID_REGEX_test (normalizeResultId v)"
  shows "handleRetrieveSubmit v server s
         = (case server (normalizeResultId v) of
              Delivered data \<Rightarrow>
                (handleResult data
                   (s\<lparr>retrieveMessage := Some (msgSearching, False),
                      requests := requests s @ [GetResult (normalizeResultId v)],
                      answers := orNoAnswers (d_answers data)\<rparr>))
                  \<lparr>retrieveMessage := Some (msgLoaded, False)\<rparr>
            | Failed \<Rightarrow>
                s\<lparr>retrieveMessage := Some (msgNotFound, True),
                  requests := requests s @ [GetResult (normalizeResultId v)]\<rparr>)"
proof -
  from assms regex_not_empty have "normalizeResultId v \<noteq> []" by metis
  with assms show ?thesis
    by (simp add: handleRetrieveSubmit_def Let_def split: response.split)
qed

lemma retrieve_valid_requests:
  assumes "RESULT_ID_REGEX_test (normalizeResultId v)"
  shows "requests (handleRetrieveSubmit v server s)
         = requests s @ [GetResult (normalizeResultId v)]"
  unfolding retrieve_valid [OF assms]
  by (simp add: handleResult_fields split: response.split)

lemma example_keys:
  "normalizeResultId ''ideo-ab12-cd34'' = units ''IDEO-AB12-CD34''"
  "RESULT_ID_REGEX_test (units ''IDEO-AB12-CD34'')"
  "normalizeResultId ''IDEO-AB1-CD34'' = units ''IDEO-AB1-CD34''"
  "\<not> RESULT_ID_REGEX_test (units ''IDEO-AB1-CD34'')"
  "units ''IDEO-AB1-CD34'' \<noteq> []"
  "normalizeResultId ''FOO-AB12-CD34'' = units ''FOO-AB12-CD34''"
  "\<not> RESULT_ID_REGEX_test (units ''FOO-AB12-CD34'')"
  "units ''FOO-AB12-CD34'' \<noteq> []"
  by (simp_all add: normalizeResultId_def toUpperCase_def trim_def isWhiteSpace_def
      upperUnits_def units_def RESULT_ID_REGEX_test_def isKeyUnit_def)

lemma example_keys_outside_ascii:
  "normalizeResultId (CHR 0xA0 # ''ideo-ab12-cd34'') = units ''IDEO-AB12-CD34''"
  "normalizeResultId (''ideo-a'' @ [CHR 0xDF] @ ''1-cd34'') = units ''IDEO-ASS1-CD34''"
  "RESULT_ID_REGEX_test (units ''IDEO-ASS1-CD34'')"
  "normalizeResultId ''  '' = []"
  by (simp_all add: normalizeResultId_def toUpperCase_def trim_def isWhiteSpace_def
      upperUnits_def units_def RESULT_ID_REGEX_test_def isKeyUnit_def)

text \<open>
  Claim C4. For every text of the input field, \<open>handleRetrieveSubmit\<close> first normalises the
  key and checks it against the pattern. When the check fails the only change is an error
  in the retrieve message area, and no lookup is made: the error is the invalid-format
  one, or, when nothing is left of the input after normalising, the request to enter a
  key. When the check passes, exactly one lookup is made, of the normalised key. The key
  \<open>"ideo-ab12-cd34"\<close> normalises and passes; \<open>"IDEO-AB1-CD34"\<close> and \<open>"FOO-AB12-CD34"\<close> are
  rejected with the invalid-format error before any lookup, and a blank input with the
  request to enter a key. What is checked is the normalised key: the key after a no-break
  space is looked up, and so is \<open>"ideo-a\<ss>1-cd34"\<close>, as \<open>"IDEO-ASS1-CD34"\<close>.
\<close>

theorem retrieval_validates_before_lookup:
  "(\<not> RESULT_ID_REGEX_test (normalizeResultId v) \<longrightarrow>
      handleRetrieveSubmit v server s
        = s\<lparr>retrieveMessage :=
              Some (if normalizeResultId v = [] then msgEnterKey else msgInvalidFormat, True)\<rparr>
      \<and> requests (handleRetrieveSubmit v server s) = requests s)
   \<and> (RESULT_ID_REGEX_test (normalizeResultId v) \<longrightarrow>
        requests (handleRetrieveSubmit v server s)
          = requests s @ [GetResult (normalizeResultId v)])
   \<and> normalizeResultId ''ideo-ab12-cd34'' = units ''IDEO-AB12-CD34''
   \<and> RESULT_ID_REGEX_test (normalizeResultId ''ideo-ab12-cd34'')
   \<and> requests (handleRetrieveSubmit ''ideo-ab12-cd34'' server s)
       = requests s @ [GetResult (units ''IDEO-AB12-CD34'')]
   \<and> handleRetrieveSubmit ''IDEO-AB1-CD34'' server s
       = s\<lparr>retrieveMessage := Some (msgInvalidFormat, True)\<rparr>
   \<and> handleRetrieveSubmit ''FOO-AB12-CD34'' server s
       = s\<lparr>retrieveMessage := Some (msgInvalidFormat, True)\<rparr>
   \<and> handleRetrieveSubmit ''  '' server s = s\<lparr>retrieveMessage := Some (msgEnterKey, True)\<rparr>
   \<and> requests (handleRetrieveSubmit (CHR 0xA0 # ''ideo-ab12-cd34'') server s)
       = requests s @ [GetResult (units ''IDEO-AB12-CD34'')]
   \<and> requests (handleRetrieveSubmit (''ideo-a'' @ [CHR 0xDF] @ ''1-cd34'') server s)
       = requests s @ [GetResult (units ''IDEO-ASS1-CD34'')]"
proof -
  have a: "\<not> RESULT_ID_REGEX_test (normalizeResultId v) \<longrightarrow>
      handleRetrieveSubmit v server s
        = s\<lparr>retrieveMessage :=
              Some (if normalizeResultId v = [] then msgEnterKey else msgInvalidFormat, True)\<rparr>
      \<and> requests (handleRetrieveSubmit v server s) = requests s"
    by (simp add: retrieve_invalid)
  have b: "RESULT_ID_REGEX_test (normalizeResultId v) \<longrightarrow>
        requests (handleRetrieveSubmit v server s)
          = requests s @ [GetResult (normalizeResultId v)]"
    by (simp add: retrieve_valid_requests)
  have k: "normalizeResultId ''ideo-ab12-cd34'' = units ''IDEO-AB12-CD34''"
    and k': "RESULT_ID_REGEX_test (normalizeResultId ''ideo-ab12-cd34'')"
    by (simp_all only: example_keys)
  have c: "requests (handleRetrieveSubmit ''ideo-ab12-cd34'' server s)
       = requests s @ [GetResult (units ''IDEO-AB12-CD34'')]"
    using retrieve_valid_requests [of "''ideo-ab12-cd34''" server s]
    by (simp only: example_keys)
  have d: "handleRetrieveSubmit ''IDEO-AB1-CD34'' server s
       = s\<lparr>retrieveMessage := Some (msgInvalidFormat, True)\<rparr>"
    using retrieve_invalid [of "''IDEO-AB1-CD34''" server s]
    by (simp add: example_keys)
  have e: "handleRetrieveSubmit ''FOO-AB12-CD34'' server s
       = s\<lparr>retrieveMessage := Some (msgInvalidFormat, True)\<rparr>"
    using retrieve_invalid [of "''FOO-AB12-CD34''" server s]
    by (simp add: example_keys)
  have f: "handleRetrieveSubmit ''  '' server s = s\<lparr>retrieveMessage := Some (msgEnterKey, True)\<rparr>"
    using retrieve_invalid [of "''  ''" server s]
    by (simp add: example_keys_outside_ascii regex_not_empty)
  have g: "requests (handleRetrieveSubmit (CHR 0xA0 # ''ideo-ab12-cd34'') server s)
       = requests s @ [GetResult (units ''IDEO-AB12-CD34'')]"
    using retrieve_valid_requests [of "CHR 0xA0 # ''ideo-ab12-cd34''" server s]
    by (simp only: example_keys example_keys_outside_ascii)
  have h: "requests (handleRetrieveSubmit (''ideo-a'' @ [CHR 0xDF] @ ''1-cd34'') server s)
       = requests s @ [GetResult (units ''IDEO-ASS1-CD34'')]"
    using retrieve_valid_requests [of "''ideo-a'' @ [CHR 0xDF] @ ''1-cd34''" server s]
    by (simp only: example_keys_outside_ascii)
  from a b k k' c d e f g h show ?thesis
    by (intro conjI)
qed

theorem retrieval_validates_before_lookup_witness:
  "\<not> RESULT_ID_REGEX_test (normalizeResultId ''ideo-ab12-cd3'')
   \<and> requests (handleRetrieveSubmit ''ideo-ab12-cd3'' (constantServer Failed) initialState) = []
   \<and> retrieveMessage (handleRetrieveSubmit ''ideo-ab12-cd3'' (constantServer Failed) initialState)
       = Some (msgInvalidFormat, True)
   \<and> RESULT_ID_REGEX_test (normalizeResultId ''ideo-9zq4-x0y1'')
   \<and> requests (handleRetrieveSubmit ''ideo-9zq4-x0y1'' (constantServer Failed) initialState)
       = [GetResult (units ''IDEO-9ZQ4-X0Y1'')]"
proof -
  have n1: "normalizeResultId ''ideo-ab12-cd3'' = units ''IDEO-AB12-CD3''"
    and n2: "normalizeResultId ''ideo-9zq4-x0y1'' = units ''IDEO-9ZQ4-X0Y1''"
    by (simp_all add: normalizeResultId_def toUpperCase_def trim_def isWhiteSpace_def
        upperUnits_def units_def)
  have h1: "\<not> RESULT_ID_REGEX_test (normalizeResultId ''ideo-ab12-cd3'')"
    and h2: "RESULT_ID_REGEX_test (normalizeResultId ''ideo-9zq4-x0y1'')"
    unfolding n1 n2 by (simp_all add: RESULT_ID_REGEX_test_def isKeyUnit_def units_def)
  have ne: "units ''IDEO-AB12-CD3'' \<noteq> []"
    by (simp add: units_def)
  have r: "requests initialState = []"
    by (simp add: initialState_def)
  from retrieval_validates_before_lookup
    [of "''ideo-ab12-cd3''" "constantServer Failed" initialState] h1
  have a: "handleRetrieveSubmit ''ideo-ab12-cd3'' (constantServer Failed) initialState
        = initialState\<lparr>retrieveMessage :=
              Some (if normalizeResultId ''ideo-ab12-cd3'' = [] then msgEnterKey
                    else msgInvalidFormat, True)\<rparr>"
    and b: "requests (handleRetrieveSubmit ''ideo-ab12-cd3'' (constantServer Failed) initialState)
        = requests initialState"
    by blast+
  from a have a': "retrieveMessage
        (handleRetrieveSubmit ''ideo-ab12-cd3'' (constantServer Failed) initialState)
       = Some (msgInvalidFormat, True)"
    by (simp add: n1 ne)
  from retrieval_validates_before_lookup
    [of "''ideo-9zq4-x0y1''" "constantServer Failed" initialState] h2
  have c: "requests (handleRetrieveSubmit ''ideo-9zq4-x0y1'' (constantServer Failed) initialState)
        = requests initialState @ [GetResult (normalizeResultId ''ideo-9zq4-x0y1'')]"
    by blast
  from h1 h2 a' b c show ?thesis
    by (simp add: r n2)
qed

section \<open>Properties of the answer map\<close>

lemma answers_buildPagesByAxis: "buildPagesByAxis s = Inr s' \<Longrightarrow> answers s' = answers s"
  by (auto simp: buildPagesByAxis_def split: sum.splits prod.splits)

lemma answers_fetchQuestions [simp]: "answers (fetchQuestions reply s) = answers s"
  by (auto simp: fetchQuestions_def dest: answers_buildPagesByAxis split: response.split sum.split)

lemma answers_resetQuiz [simp]: "answers (resetQuiz s) = Map.empty"
  by (simp add: resetQuiz_def)

lemma answers_recordAnswer:
  "answers (recordAnswer qId v s)
   = (if qId = ''__proto__'' \<and> answers s qId = None then answers s else (answers s)(qId \<mapsto> v))"
  by (auto simp: recordAnswer_def)

lemma answers_retrieve_delivered:
  assumes "RESULT_ID_REGEX_test (normalizeResultId v)"
    and "server (normalizeResultId v) = Delivered data"
  shows "answers (handleRetrieveSubmit v server s) = orNoAnswers (d_answers data)"
  unfolding retrieve_valid [OF assms(1)] assms(2)
  by (simp add: answers_handleResult orNoAnswers_def split: option.split)

lemma answers_retrieve_not_delivered:
  assumes "\<not> RESULT_ID_REGEX_test (normalizeResultId v) \<or> server (normalizeResultId v) = Failed"
  shows "answers (handleRetrieveSubmit v server s) = answers s"
proof (cases "RESULT_ID_REGEX_test (normalizeResultId v)")
  case True
  with assms have "server (normalizeResultId v) = Failed" by simp
  then show ?thesis
    unfolding retrieve_valid [OF True] by simp
next
  case False
  then show ?thesis
    by (simp add: retrieve_invalid)
qed

lemma answers_changed:
  assumes "answers (step e s) \<noteq> answers s"
  shows "isAnswerChosen e \<or> e = RestartClicked \<or> isRetrieval e"
  using assms by (cases e) simp_all

lemma answers_cleared:
  assumes "answers s \<noteq> Map.empty" and "answers (step e s) = Map.empty"
  shows "e = RestartClicked \<or> isRetrieval e"
proof (cases e)
  case (AnswerChosen qId v)
  with assms show ?thesis
    by (simp add: answers_recordAnswer split: if_splits)
qed (use assms in simp_all)

text \<open>
  Claim C6, as the code has it. After a successful retrieval the answer map is the map of
  the retrieved result, whatever it was before, and the empty map when the result carries
  no answers; a retrieval that is rejected or fails leaves it alone. Only choosing an
  answer, a restart and a retrieval change the answer map; only a restart and a retrieval
  can empty it; navigation never changes it. Retrieving with \<open>"ideo-ab12-cd34"\<close> a saved
  result whose answers are \<open>{q1: 2, q2: -1}\<close> leaves the answer map equal to them.
\<close>

theorem retrieval_replaces_answers:
  "(RESULT_ID_REGEX_test (normalizeResultId v) \<and> server (normalizeResultId v) = Delivered data
      \<longrightarrow> answers (handleRetrieveSubmit v server s) = orNoAnswers (d_answers data))
   \<and> (\<not> RESULT_ID_REGEX_test (normalizeResultId v) \<or> server (normalizeResultId v) = Failed
      \<longrightarrow> answers (handleRetrieveSubmit v server s) = answers s)
   \<and> (answers (step e s) \<noteq> answers s \<longrightarrow>
        isAnswerChosen e \<or> e = RestartClicked \<or> isRetrieval e)
   \<and> (answers s \<noteq> Map.empty \<and> answers (step e s) = Map.empty \<longrightarrow>
        e = RestartClicked \<or> isRetrieval e)
   \<and> answers (step RestartClicked s) = Map.empty
   \<and> (list_all isNavigation nav \<longrightarrow> answers (run nav s) = answers s)
   \<and> (server (units ''IDEO-AB12-CD34'') = Delivered data
        \<and> d_answers data = Some [''q1'' \<mapsto> 2, ''q2'' \<mapsto> - 1]
      \<longrightarrow> answers (handleRetrieveSubmit ''ideo-ab12-cd34'' server s)
            = [''q1'' \<mapsto> 2, ''q2'' \<mapsto> - 1])"
proof (intro conjI impI)
  assume "RESULT_ID_REGEX_test (normalizeResultId v) \<and> server (normalizeResultId v) = Delivered data"
  then show "answers (handleRetrieveSubmit v server s) = orNoAnswers (d_answers data)"
    by (simp add: answers_retrieve_delivered)
next
  assume "\<not> RESULT_ID_REGEX_test (normalizeResultId v) \<or> server (normalizeResultId v) = Failed"
  then show "answers (handleRetrieveSubmit v server s) = answers s"
    by (rule answers_retrieve_not_delivered)
next
  assume "answers (step e s) \<noteq> answers s"
  then show "isAnswerChosen e \<or> e = RestartClicked \<or> isRetrieval e"
    by (rule answers_changed)
next
  assume "answers s \<noteq> Map.empty \<and> answers (step e s) = Map.empty"
  then show "e = RestartClicked \<or> isRetrieval e"
    using answers_cleared by blast
next
  show "answers (step RestartClicked s) = Map.empty"
    by simp
next
  assume "list_all isNavigation nav"
  then show "answers (run nav s) = answers s"
    by (rule answers_run_navigation)
next
  assume a: "server (units ''IDEO-AB12-CD34'') = Delivered data
        \<and> d_answers data = Some [''q1'' \<mapsto> 2, ''q2'' \<mapsto> - 1]"
  have "answers (handleRetrieveSubmit ''ideo-ab12-cd34'' server s) = orNoAnswers (d_answers data)"
    by (rule answers_retrieve_delivered) (simp_all add: example_keys a)
  with a show "answers (handleRetrieveSubmit ''ideo-ab12-cd34'' server s)
            = [''q1'' \<mapsto> 2, ''q2'' \<mapsto> - 1]"
    by (simp add: orNoAnswers_def)
qed

text \<open>
  The claim as the specification words it fails: an operation other than a restart clears
  the answer map. Retrieving a result that carries no answers turns the map \<open>{q1: 2}\<close>
  into the empty map.
\<close>

theorem retrieval_clears_answers_counterexample:
  "answers (initialState\<lparr>answers := [''q1'' \<mapsto> 2]\<rparr>) ''q1'' = Some 2
   \<and> answers (step (RetrieveSubmitted ''IDEO-AB12-CD34''
         (constantServer (Delivered
            \<lparr>d_axes = Some [(''economic'', JNum (Fin 10))], d_profile = None,
             d_result_id = Some ''IDEO-AB12-CD34'', d_id = None, d_answers = None\<rparr>)))
       (initialState\<lparr>answers := [''q1'' \<mapsto> 2]\<rparr>)) = Map.empty
   \<and> RetrieveSubmitted ''IDEO-AB12-CD34''
         (constantServer (Delivered
            \<lparr>d_axes = Some [(''economic'', JNum (Fin 10))], d_profile = None,
             d_result_id = Some ''IDEO-AB12-CD34'', d_id = None, d_answers = None\<rparr>))
       \<noteq> RestartClicked"
proof -
  have k: "normalizeResultId ''IDEO-AB12-CD34'' = units ''IDEO-AB12-CD34''"
    by (simp add: normalizeResultId_def toUpperCase_def trim_def isWhiteSpace_def upperUnits_def
        units_def)
  show ?thesis
    by (simp add: answers_retrieve_delivered k example_keys constantServer_def orNoAnswers_def)
qed

text \<open>
  Claim C7. Any number of clicks on the previous and next buttons leaves the answer map as
  it is, from every state, so also after any sequence of chosen answers; this includes a
  click on the next button on the last page, which submits. A click on the previous
  button, and a click on the next button before the last page, change nothing but the page
  index (and hide the quiz message).
\<close>

theorem navigation_preserves_answers:
  "(list_all isNavigation nav \<longrightarrow> answers (run nav s) = answers s)
   \<and> (list_all isAnswerChosen recs \<and> list_all isNavigation nav \<longrightarrow>
        answers (run (recs @ nav) s) = answers (run recs s))
   \<and> (\<exists>i m. prevClick s = s\<lparr>currentPageIndex := i, quizMessage := m\<rparr>)
   \<and> (currentPageIndex s + 1 < length (pages s) \<longrightarrow>
        nextClick scoring saving s
          = s\<lparr>currentPageIndex := currentPageIndex s + 1, quizMessage := None\<rparr>)"
  by (simp add: answers_run_navigation run_append prevClick_frame nextClick_frame)

theorem retrieval_replaces_answers_witness:
  "RESULT_ID_REGEX_test (normalizeResultId ''ideo-ab12-cd34'')
   \<and> constantServer (Delivered savedResult) (units ''IDEO-AB12-CD34'') = Delivered savedResult
   \<and> d_answers savedResult = Some [''q1'' \<mapsto> 2, ''q2'' \<mapsto> - 1]
   \<and> answers
        (run [AnswerChosen ''q1'' 2, AnswerChosen ''q2'' (- 1),
              NextClicked (Delivered (savedResult\<lparr>d_result_id := None, d_answers := None\<rparr>))
                (Delivered (Some ''IDEO-AB12-CD34'')),
              AnswerChosen ''q1'' 0] initialState) ''q1'' = Some 0
   \<and> answers
        (handleRetrieveSubmit ''ideo-ab12-cd34'' (constantServer (Delivered savedResult))
          (run [AnswerChosen ''q1'' 2, AnswerChosen ''q2'' (- 1),
                NextClicked (Delivered (savedResult\<lparr>d_result_id := None, d_answers := None\<rparr>))
                  (Delivered (Some ''IDEO-AB12-CD34'')),
                AnswerChosen ''q1'' 0] initialState))
       = [''q1'' \<mapsto> 2, ''q2'' \<mapsto> - 1]"
proof -
  have h1: "RESULT_ID_REGEX_test (normalizeResultId ''ideo-ab12-cd34'')"
    by (simp add: example_keys)
  have h2: "constantServer (Delivered savedResult) (units ''IDEO-AB12-CD34'') = Delivered savedResult"
    by (simp add: constantServer_def)
  have h3: "d_answers savedResult = Some [''q1'' \<mapsto> 2, ''q2'' \<mapsto> - 1]"
    by (simp add: savedResult_def)
  have e: "answers
        (run [AnswerChosen ''q1'' 2, AnswerChosen ''q2'' (- 1),
              NextClicked (Delivered (savedResult\<lparr>d_result_id := None, d_answers := None\<rparr>))
                (Delivered (Some ''IDEO-AB12-CD34'')),
              AnswerChosen ''q1'' 0] initialState) ''q1'' = Some 0"
    by (simp add: answers_recordAnswer)
  from retrieval_replaces_answers
    [of _ "constantServer (Delivered savedResult)" savedResult _ _ _] h2 h3
  have "answers
        (handleRetrieveSubmit ''ideo-ab12-cd34'' (constantServer (Delivered savedResult))
          (run [AnswerChosen ''q1'' 2, AnswerChosen ''q2'' (- 1),
                NextClicked (Delivered (savedResult\<lparr>d_result_id := None, d_answers := None\<rparr>))
                  (Delivered (Some ''IDEO-AB12-CD34'')),
                AnswerChosen ''q1'' 0] initialState))
       = [''q1'' \<mapsto> 2, ''q2'' \<mapsto> - 1]"
    by blast
  with h1 h2 h3 e show ?thesis
    by blast
qed

theorem navigation_preserves_answers_witness:
  "list_all isAnswerChosen [AnswerChosen ''q1'' 2, AnswerChosen ''q2'' (- 1)]
   \<and> list_all isNavigation
        [NextClicked Failed Failed, PrevClicked, NextClicked Failed Failed,
         NextClicked (Delivered (savedResult\<lparr>d_answers := None\<rparr>)) Failed]
   \<and> answers
        (run ([AnswerChosen ''q1'' 2, AnswerChosen ''q2'' (- 1)]
              @ [NextClicked Failed Failed, PrevClicked, NextClicked Failed Failed,
                 NextClicked (Delivered (savedResult\<lparr>d_answers := None\<rparr>)) Failed])
           twoPageQuiz)
       = [''q1'' \<mapsto> 2, ''q2'' \<mapsto> - 1]
   \<and> currentPageIndex twoPageQuiz + 1 < length (pages twoPageQuiz)
   \<and> currentPageIndex (nextClick Failed Failed twoPageQuiz) = 1"
proof -
  have h1: "list_all isAnswerChosen [AnswerChosen ''q1'' 2, AnswerChosen ''q2'' (- 1)]"
    by simp
  have h2: "list_all isNavigation
        [NextClicked Failed Failed, PrevClicked, NextClicked Failed Failed,
         NextClicked (Delivered (savedResult\<lparr>d_answers := None\<rparr>)) Failed]"
    by simp
  have h3: "currentPageIndex twoPageQuiz + 1 < length (pages twoPageQuiz)"
    by (simp add: twoPageQuiz_def initialState_def)
  have a: "answers (run [AnswerChosen ''q1'' 2, AnswerChosen ''q2'' (- 1)] twoPageQuiz)
           = [''q1'' \<mapsto> 2, ''q2'' \<mapsto> - 1]"
    by (simp add: answers_recordAnswer twoPageQuiz_def initialState_def)
  note t = navigation_preserves_answers
    [of "[NextClicked Failed Failed, PrevClicked, NextClicked Failed Failed,
         NextClicked (Delivered (savedResult\<lparr>d_answers := None\<rparr>)) Failed]"
        twoPageQuiz "[AnswerChosen ''q1'' 2, AnswerChosen ''q2'' (- 1)]" Failed Failed]
  from t h1 h2 have b: "answers
        (run ([AnswerChosen ''q1'' 2, AnswerChosen ''q2'' (- 1)]
              @ [NextClicked Failed Failed, PrevClicked, NextClicked Failed Failed,
                 NextClicked (Delivered (savedResult\<lparr>d_answers := None\<rparr>)) Failed])
           twoPageQuiz)
        = answers (run [AnswerChosen ''q1'' 2, AnswerChosen ''q2'' (- 1)] twoPageQuiz)"
    by blast
  from t h3 have c: "nextClick Failed Failed twoPageQuiz
          = twoPageQuiz\<lparr>currentPageIndex := currentPageIndex twoPageQuiz + 1, quizMessage := None\<rparr>"
    by blast
  have d: "currentPageIndex (nextClick Failed Failed twoPageQuiz) = 1"
    unfolding c by (simp add: twoPageQuiz_def initialState_def)
  from h1 h2 h3 a b d show ?thesis
    by (simp only: simp_thms)
qed

end
